theory Spec2Isabelle
  imports Main "HOL-Library.Sublist"
begin

section \<open>Strings\<close>

text \<open>
  Python strings are modelled as \<open>string\<close> (lists of bytes, UTF-8). Every character the
  script inspects (\<open>.\<close>, \<open>/\<close>, backslash, space, the letters of the two spreadsheet
  suffixes) is ASCII, and no byte of a multi-byte UTF-8 sequence is ASCII, so working on
  bytes gives the results Python gives on code points.
\<close>

definition backslash :: char where
  "backslash = CHR 0x5C"

text \<open>\<open>str.lstrip(chars)\<close>: drop leading characters while they are in the set \<open>chars\<close>.\<close>

definition lstrip :: "string \<Rightarrow> string \<Rightarrow> string" where
  "lstrip chars s = dropWhile (\<lambda>c. c \<in> set chars) s"

text \<open>
  \<open>str.replace(old, new)\<close>: scan from the left, replacing every non-overlapping occurrence
  of \<open>old\<close>; an empty \<open>old\<close> matches before every character and at the end.
\<close>

function str_replace :: "string \<Rightarrow> string \<Rightarrow> string \<Rightarrow> string" where
  "str_replace old new s =
     (if old = [] then new @ concat (map (\<lambda>c. c # new) s)
      else if s = [] then []
      else if take (length old) s = old
        then new @ str_replace old new (drop (length old) s)
      else hd s # str_replace old new (tl s))"
  by pat_completeness auto
termination
  by (relation "measure (\<lambda>(old, new, s). length s)") auto

declare str_replace.simps [simp del]

text \<open>\<open>str.lower()\<close> on the ASCII letters; every other byte is left as it is.\<close>

definition lower_char :: "char \<Rightarrow> char" where
  "lower_char c =
     (let n = (of_char c :: nat) in if 65 \<le> n \<and> n \<le> 90 then char_of (n + 32) else c)"

definition lower :: "string \<Rightarrow> string" where
  "lower s = map lower_char s"

text \<open>\<open>sep.join(xs)\<close>.\<close>

fun join :: "string \<Rightarrow> string list \<Rightarrow> string" where
  "join sep [] = []"
| "join sep [x] = x"
| "join sep (x # y # ys) = x @ sep @ join sep (y # ys)"

text \<open>\<open>s.rfind(c)\<close> for a one-character \<open>c\<close>: the highest index of \<open>c\<close>, or \<open>-1\<close>.\<close>

fun rfind_from :: "char \<Rightarrow> string \<Rightarrow> int \<Rightarrow> int \<Rightarrow> int" where
  "rfind_from c [] i best = best"
| "rfind_from c (x # xs) i best = rfind_from c xs (i + 1) (if x = c then i else best)"

definition rfind :: "char \<Rightarrow> string \<Rightarrow> int" where
  "rfind c s = rfind_from c s 0 (- 1)"

text \<open>Decimal digits, \<open>str(n)\<close> for a natural number, and zero padding to a width.\<close>

definition digit_char :: "nat \<Rightarrow> char" where
  "digit_char n = char_of (48 + n)"

fun str_nat :: "nat \<Rightarrow> string" where
  "str_nat n = (if n < 10 then [digit_char n] else str_nat (n div 10) @ [digit_char (n mod 10)])"

declare str_nat.simps [simp del]

definition zfill :: "nat \<Rightarrow> string \<Rightarrow> string" where
  "zfill w s = replicate (w - length s) (CHR ''0'') @ s"

text \<open>The string contains two adjacent forward slashes.\<close>

fun double_slash :: "string \<Rightarrow> bool" where
  "double_slash (a # b # cs) = ((a = CHR ''/'' \<and> b = CHR ''/'') \<or> double_slash (b # cs))"
| "double_slash _ = False"


section \<open>Paths\<close>

text \<open>
  A \<open>pathlib\<close> path is the list of its components (\<open>Path.parts\<close>); the anchor of an absolute
  path is its first component. \<open>name\<close>, \<open>suffix\<close> and \<open>stem\<close> read the final component
  as \<open>pathlib\<close> does (Python 3.10 to 3.13).
\<close>

type_synonym path = "string list"

definition name :: "path \<Rightarrow> string" where
  "name p = (if p = [] then [] else last p)"

definition suffix_of :: "path \<Rightarrow> string" where
  "suffix_of p =
     (let n = name p; i = rfind (CHR ''.'') n
      in if 0 < i \<and> i < int (length n) - 1 then drop (nat i) n else [])"

definition stem :: "path \<Rightarrow> string" where
  "stem p =
     (let n = name p; i = rfind (CHR ''.'') n
      in if 0 < i \<and> i < int (length n) - 1 then take (nat i) n else n)"

definition parent :: "path \<Rightarrow> path" where
  "parent p = butlast p"

datatype exn =
    ValueError string
  | NoSectionError string
  | NoOptionError string string
  | OtherException string

text \<open>
  \<open>p.relative_to(base)\<close>: the components of \<open>p\<close> after those of \<open>base\<close>, and
  \<open>ValueError\<close> when \<open>base\<close> is not a leading part of \<open>p\<close>.
\<close>

definition relative_to :: "path \<Rightarrow> path \<Rightarrow> exn + path" where
  "relative_to p base =
     (if prefix base p then Inr (drop (length base) p)
      else Inl (ValueError ''path is not in the subpath of base''))"

text \<open>\<open>as_posix()\<close> of a relative path; the empty relative path is \<open>.\<close>.\<close>

definition as_posix :: "path \<Rightarrow> string" where
  "as_posix p = (if p = [] then ''.'' else join ''/'' p)"

definition is_excel_file :: "path \<Rightarrow> bool" where
  "is_excel_file file_path = (lower (suffix_of file_path) \<in> set [''.xlsx'', ''.xls''])"


section \<open>Datasets, dates and the key prefix\<close>

datatype Dataset = WINISTRY | SPARKLOFT

fun dataset_value :: "Dataset \<Rightarrow> string" where
  "dataset_value WINISTRY = ''winistry''"
| "dataset_value SPARKLOFT = ''sparkloft''"

record date =
  year :: nat
  month :: nat
  day :: nat

definition is_leap :: "nat \<Rightarrow> bool" where
  "is_leap y = (y mod 4 = 0 \<and> (y mod 100 \<noteq> 0 \<or> y mod 400 = 0))"

definition days_in_month :: "nat \<Rightarrow> nat \<Rightarrow> nat" where
  "days_in_month y m =
     (if m = 2 then (if is_leap y then 29 else 28)
      else if m \<in> set [4, 6, 9, 11] then 30 else 31)"

text \<open>The values a \<open>datetime\<close> object can hold (\<open>MINYEAR = 1\<close>, \<open>MAXYEAR = 9999\<close>).\<close>

definition date_ok :: "date \<Rightarrow> bool" where
  "date_ok d =
     (1 \<le> year d \<and> year d \<le> 9999 \<and> 1 \<le> month d \<and> month d \<le> 12 \<and>
      1 \<le> day d \<and> day d \<le> days_in_month (year d) (month d))"

text \<open>
  \<open>strftime('%Y-%m-%d')\<close>: the year padded to four digits, month and day to two. (The C
  libraries differ on \<open>%Y\<close> only for years below 1000.)
\<close>

definition strftime_ymd :: "date \<Rightarrow> string" where
  "strftime_ymd d =
     zfill 4 (str_nat (year d)) @ ''-'' @ zfill 2 (str_nat (month d)) @ ''-'' @
     zfill 2 (str_nat (day d))"

text \<open>
  The f-string of \<open>upload\<close> (line 328) and \<open>upload_dashboard\<close> (line 284), from the dataset
  string and the value \<open>datetime.datetime.now()\<close> returned.
\<close>

definition s3_path_of :: "string \<Rightarrow> date \<Rightarrow> string" where
  "s3_path_of dataset today =
     ''delivery/dataset='' @ dataset @ ''/status=staged/delivery-date='' @
     strftime_ymd today @ ''/''"

text \<open>The sheet-name sanitization of \<open>upload_csv_buffer_to_s3\<close> (line 180).\<close>

definition safe_sheet_name :: "string \<Rightarrow> string" where
  "safe_sheet_name sheet_name =
     str_replace '' '' ''_'' (str_replace [backslash] ''_'' (str_replace ''/'' ''_'' sheet_name))"


section \<open>Workbooks\<close>

text \<open>
  What \<open>pandas\<close> gives the script. A \<open>DataFrame\<close> is its column labels and its data
  rows (cells already rendered as text); \<open>DataFrame.empty\<close> holds when either axis has
  length zero. A sheet is its name and what \<open>pd.read_excel(file_path, sheet_name=...)\<close>
  does for it: raise, or return a frame.
\<close>

record dataframe =
  columns :: "string list"
  data_rows :: "string list list"

definition df_empty :: "dataframe \<Rightarrow> bool" where
  "df_empty df = (columns df = [] \<or> data_rows df = [])"

record sheet =
  sheet_title :: string
  sheet_frame :: "exn + dataframe"

text \<open>
  \<open>DataFrame.to_csv(header=..., index=...)\<close> with the default dialect: fields separated by
  commas, a field quoted only when it holds a comma, a quote or a line break, one line per
  row, the index column (first, with an empty label) only when \<open>index\<close> is set. The
  writer never emits an empty record for a row that has fields: a row of one empty field
  is written as a pair of quotes.
\<close>

definition csv_field :: "string \<Rightarrow> string" where
  "csv_field s =
     (if list_ex (\<lambda>c. c \<in> set [CHR '','', CHR 0x22, CHR 0x0A, CHR 0x0D]) s
      then [CHR 0x22] @ concat (map (\<lambda>c. if c = CHR 0x22 then [c, c] else [c]) s) @ [CHR 0x22]
      else s)"

definition csv_line :: "string list \<Rightarrow> string" where
  "csv_line cells =
     (if cells = [[]] then [CHR 0x22, CHR 0x22] else join '','' (map csv_field cells)) @
     [CHR 0x0A]"

definition to_csv :: "dataframe \<Rightarrow> bool \<Rightarrow> bool \<Rightarrow> string" where
  "to_csv df header index =
     (if header then csv_line ((if index then [[]] else []) @ columns df) else []) @
     concat (map (\<lambda>(i, r). csv_line ((if index then [str_nat i] else []) @ r))
               (zip [0 ..< length (data_rows df)] (data_rows df)))"


section \<open>The world of one run\<close>

text \<open>
  Everything a run leaves behind: the log records it emitted, the calls of the store's put
  operations it made (\<open>upload_file\<close>, \<open>upload_fileobj\<close>), the clients it constructed, and
  how often it read the clock.
\<close>

datatype level = INFO | WARNING | ERROR

text \<open>One constructor per logging call of the script, with the values its f-string shows.\<close>

datatype message =
    ConfigNotFound
  | ConfigReadError exn
  | ConfigUnexpected
  | CredentialsIncomplete
  | UsingCredentials
  | WouldUpload path string
  | Uploaded path string
  | ErrorUploading path
  | WouldUploadSheet string string string
  | UploadedSheet string string string
  | ErrorUploadingSheet string string
  | ProcessingExcel path
  | NoSheets path
  | FoundSheets nat "string list"
  | SheetEmpty string path
  | ErrorProcessingSheet string path
  | ErrorProcessingExcel path
  | DashboardStart
  | DashboardProcessing string string
  | DashboardFileNotFound path
  | DashboardExcel path string
  | DashboardFile path string
  | DashboardDone
  | UploadingFiles nat path string
  | FoundCounts nat nat
  | SingleExcel path string
  | SingleFile path string

record log_record =
  levelname :: level
  message :: message
  exc_info :: "exn option"
  stack_info :: bool

datatype put_call =
    UploadFile string path
  | UploadFileobj string string

fun put_key :: "put_call \<Rightarrow> string" where
  "put_key (UploadFile k f) = k"
| "put_key (UploadFileobj k b) = k"

text \<open>What a put writes: a plain file or a sheet buffer, under which key.\<close>

datatype upload_kind = PlainFile | SheetBuffer

fun put_target :: "put_call \<Rightarrow> upload_kind \<times> string" where
  "put_target (UploadFile k f) = (PlainFile, k)"
| "put_target (UploadFileobj k b) = (SheetBuffer, k)"

type_synonym s3_client = "string \<times> string"

record world =
  clock_reads :: nat
  log_records :: "log_record list"
  put_calls :: "put_call list"
  clients :: "s3_client list"

text \<open>
  What the run reads from outside: the date the \<open>n\<close>-th call of \<open>datetime.now()\<close> returns,
  whether the \<open>n\<close>-th put raises, the configuration file, and the file system.
\<close>

type_synonym ini = "(string \<times> (string \<times> string) list) list"

datatype config_file = Absent | Broken exn | Parsed ini

record env =
  now_value :: "nat \<Rightarrow> date"
  put_raises :: "nat \<Rightarrow> exn option"
  config_file :: config_file
  is_dir :: "path \<Rightarrow> bool"
  glob_files :: "path \<Rightarrow> path list"
  resolve :: "path \<Rightarrow> path"
  path_exists :: "path \<Rightarrow> bool"
  pd_excel_file :: "path \<Rightarrow> exn + sheet list"

datatype outcome = Completed | SysExit nat | Uncaught exn

fun exit_code :: "outcome \<Rightarrow> nat" where
  "exit_code Completed = 0"
| "exit_code (SysExit n) = n"
| "exit_code (Uncaught e) = 1"

definition log_msg :: "level \<Rightarrow> message \<Rightarrow> exn option \<Rightarrow> bool \<Rightarrow> world \<Rightarrow> world" where
  "log_msg lv m e st w =
     w\<lparr>log_records := log_records w @
         [\<lparr>levelname = lv, message = m, exc_info = e, stack_info = st\<rparr>]\<rparr>"

definition info :: "message \<Rightarrow> world \<Rightarrow> world" where
  "info m w = log_msg INFO m None False w"

definition now :: "env \<Rightarrow> world \<Rightarrow> date \<times> world" where
  "now E w = (now_value E (clock_reads w), w\<lparr>clock_reads := Suc (clock_reads w)\<rparr>)"

definition s3_put :: "env \<Rightarrow> put_call \<Rightarrow> world \<Rightarrow> exn option \<times> world" where
  "s3_put E c w = (put_raises E (length (put_calls w)), w\<lparr>put_calls := put_calls w @ [c]\<rparr>)"


section \<open>Credentials and client\<close>

text \<open>
  \<open>config.get(section, option)\<close> on the parsed file; the parser stores option names in
  lower case and looks them up in lower case. A section's table is the one \<open>get\<close> sees.
  \<open>Broken\<close> stands for any other exception of \<open>config.read\<close> or \<open>config.get\<close>.
\<close>

definition config_get :: "ini \<Rightarrow> string \<Rightarrow> string \<Rightarrow> exn + string" where
  "config_get cfg section option =
     (case map_of cfg section of
        None \<Rightarrow> Inl (NoSectionError section)
      | Some opts \<Rightarrow>
          (case map_of opts (lower option) of
             None \<Rightarrow> Inl (NoOptionError option section)
           | Some v \<Rightarrow> Inr v))"

definition get_s3_client :: "env \<Rightarrow> world \<Rightarrow> (outcome + s3_client) \<times> world" where
  "get_s3_client E w =
     (case config_file E of
        Absent \<Rightarrow> (Inl (SysExit 1), log_msg ERROR ConfigNotFound None False w)
      | Broken e \<Rightarrow> (Inl (SysExit 1), log_msg ERROR ConfigUnexpected (Some e) False w)
      | Parsed cfg \<Rightarrow>
          (case config_get cfg ''AWS'' ''AWS_ACCESS_KEY_ID'' of
             Inl e \<Rightarrow> (Inl (SysExit 1), log_msg ERROR (ConfigReadError e) None False w)
           | Inr aws_access_key_id \<Rightarrow>
               (case config_get cfg ''AWS'' ''AWS_SECRET_ACCESS_KEY'' of
                  Inl e \<Rightarrow> (Inl (SysExit 1), log_msg ERROR (ConfigReadError e) None False w)
                | Inr aws_secret_access_key \<Rightarrow>
                    if aws_access_key_id = [] \<or> aws_secret_access_key = []
                    then (Inl (SysExit 1), log_msg ERROR CredentialsIncomplete None False w)
                    else (let w1 = info UsingCredentials w
                          in (Inr (aws_access_key_id, aws_secret_access_key),
                              w1\<lparr>clients := clients w1 @
                                   [(aws_access_key_id, aws_secret_access_key)]\<rparr>)))))"


section \<open>The uploaders\<close>

definition file_s3_path :: "string \<Rightarrow> path \<Rightarrow> string" where
  "file_s3_path s3_path path_relative_to_parent =
     s3_path @ lstrip ''/'' (lstrip ''.'' (as_posix path_relative_to_parent))"

definition upload_file_to_s3 ::
  "env \<Rightarrow> s3_client \<Rightarrow> path \<Rightarrow> string \<Rightarrow> bool \<Rightarrow> path \<Rightarrow> world \<Rightarrow> world" where
  "upload_file_to_s3 E s3_client file_path s3_path dry_run path_relative_to_parent w =
     (let full_s3_path = file_s3_path s3_path path_relative_to_parent in
      if dry_run then info (WouldUpload file_path full_s3_path) w
      else (case s3_put E (UploadFile full_s3_path file_path) w of
              (None, w1) \<Rightarrow> info (Uploaded file_path full_s3_path) w1
            | (Some e, w1) \<Rightarrow> log_msg ERROR (ErrorUploading file_path) (Some e) True w1))"

definition sheet_s3_path :: "string \<Rightarrow> string \<Rightarrow> string \<Rightarrow> string" where
  "sheet_s3_path s3_path original_filename sheet_name =
     (let base_filename = stem [original_filename];
          safe = safe_sheet_name sheet_name
      in s3_path @ base_filename @ ''_'' @ safe @ ''.csv'')"

definition upload_csv_buffer_to_s3 ::
  "env \<Rightarrow> s3_client \<Rightarrow> string \<Rightarrow> string \<Rightarrow> string \<Rightarrow> string \<Rightarrow> bool \<Rightarrow> world \<Rightarrow> world" where
  "upload_csv_buffer_to_s3 E s3_client buffer s3_path original_filename sheet_name dry_run w =
     (let full_s3_path = sheet_s3_path s3_path original_filename sheet_name in
      if dry_run
      then info (WouldUploadSheet sheet_name original_filename full_s3_path) w
      else (case s3_put E (UploadFileobj full_s3_path buffer) w of
              (None, w1) \<Rightarrow> info (UploadedSheet sheet_name original_filename full_s3_path) w1
            | (Some e, w1) \<Rightarrow>
                log_msg ERROR (ErrorUploadingSheet sheet_name original_filename) (Some e) True w1))"


section \<open>Workbook expansion\<close>

text \<open>The loop over the sheets (lines 214 to 239); each iteration has its own handler.\<close>

fun process_sheets ::
  "env \<Rightarrow> s3_client \<Rightarrow> path \<Rightarrow> string \<Rightarrow> bool \<Rightarrow> sheet list \<Rightarrow> world \<Rightarrow> world" where
  "process_sheets E s3_client file_path s3_path dry_run [] w = w"
| "process_sheets E s3_client file_path s3_path dry_run (sh # rest) w =
     process_sheets E s3_client file_path s3_path dry_run rest
       (case sheet_frame sh of
          Inl e \<Rightarrow>
            log_msg ERROR (ErrorProcessingSheet (sheet_title sh) file_path) (Some e) False w
        | Inr df \<Rightarrow>
            if df_empty df
            then log_msg WARNING (SheetEmpty (sheet_title sh) file_path) None False w
            else upload_csv_buffer_to_s3 E s3_client (to_csv df True False) s3_path
                   (name file_path) (sheet_title sh) dry_run w)"

definition process_excel_file ::
  "env \<Rightarrow> s3_client \<Rightarrow> path \<Rightarrow> string \<Rightarrow> bool \<Rightarrow> world \<Rightarrow> world" where
  "process_excel_file E s3_client file_path s3_path dry_run w =
     (let w1 = info (ProcessingExcel file_path) w in
      case pd_excel_file E file_path of
        Inl e \<Rightarrow> log_msg ERROR (ErrorProcessingExcel file_path) (Some e) True w1
      | Inr sheets \<Rightarrow>
          if sheets = [] then log_msg WARNING (NoSheets file_path) None False w1
          else process_sheets E s3_client file_path s3_path dry_run sheets
                 (info (FoundSheets (length sheets) (map sheet_title sheets)) w1))"


section \<open>The upload-dashboard command\<close>

text \<open>
  The two predefined mappings. Their paths are Windows paths; the components are those
  \<open>pathlib\<close> gives on Windows, the drive and root first.
\<close>

record mapping =
  m_file_path :: path
  m_dataset :: string
  m_description :: string

definition dashboard_dir :: path where
  "dashboard_dir =
     [''C:'' @ [backslash], ''Users'', ''research'',
      ''OneDrive - Atlanta Convention & Visitors Bureau'', ''Marketing Dashboard Data'',
      ''Documents - ACVB Research'']"

definition file_mappings :: "mapping list" where
  "file_mappings =
     [\<lparr>m_file_path = dashboard_dir @ [''Discover Atlanta KPI Dashboard.xlsx''],
       m_dataset = ''winistry'',
       m_description = ''Discover Atlanta KPI Dashboard''\<rparr>,
      \<lparr>m_file_path = dashboard_dir @ [''Discover Atlanta - Monthly Data Report.xlsx''],
       m_dataset = ''sparkloft'',
       m_description = ''Discover Atlanta Monthly Data Report''\<rparr>]"

text \<open>
  The loop over the mappings (lines 271 to 292). The clock is read inside the loop body,
  where the f-string of line 284 is evaluated.
\<close>

fun dashboard_loop ::
  "env \<Rightarrow> s3_client \<Rightarrow> bool \<Rightarrow> mapping list \<Rightarrow> world \<Rightarrow> outcome \<times> world" where
  "dashboard_loop E s3_client dry_run [] w = (Completed, w)"
| "dashboard_loop E s3_client dry_run (m # rest) w =
     (let file_path = m_file_path m;
          dataset = m_dataset m;
          w1 = info (DashboardProcessing (m_description m) dataset) w
      in if \<not> path_exists E file_path
         then dashboard_loop E s3_client dry_run rest
                (log_msg ERROR (DashboardFileNotFound file_path) None False w1)
         else (case now E w1 of (today, w2) \<Rightarrow>
           let s3_path = s3_path_of dataset today in
           if is_excel_file file_path
           then dashboard_loop E s3_client dry_run rest
                  (process_excel_file E s3_client file_path s3_path dry_run
                     (info (DashboardExcel file_path dataset) w2))
           else (let w3 = info (DashboardFile file_path dataset) w2 in
                 case relative_to file_path (parent file_path) of
                   Inl e \<Rightarrow> (Uncaught e, w3)
                 | Inr rel \<Rightarrow>
                     dashboard_loop E s3_client dry_run rest
                       (upload_file_to_s3 E s3_client file_path s3_path dry_run rel w3))))"

definition upload_dashboard :: "env \<Rightarrow> int \<Rightarrow> bool \<Rightarrow> world \<Rightarrow> outcome \<times> world" where
  "upload_dashboard E processes dry_run w =
     (case get_s3_client E w of
        (Inl out, w1) \<Rightarrow> (out, w1)
      | (Inr s3_client, w1) \<Rightarrow>
          (case dashboard_loop E s3_client dry_run file_mappings (info DashboardStart w1) of
             (Completed, w2) \<Rightarrow> (Completed, info DashboardDone w2)
           | (out, w2) \<Rightarrow> (out, w2)))"


section \<open>The upload command\<close>

text \<open>The sequential loop over the spreadsheet files (lines 341 and 342).\<close>

fun process_excel_files ::
  "env \<Rightarrow> s3_client \<Rightarrow> string \<Rightarrow> bool \<Rightarrow> path list \<Rightarrow> world \<Rightarrow> world" where
  "process_excel_files E s3_client s3_path dry_run [] w = w"
| "process_excel_files E s3_client s3_path dry_run (excel_file # rest) w =
     process_excel_files E s3_client s3_path dry_run rest
       (process_excel_file E s3_client (resolve E excel_file) s3_path dry_run w)"

text \<open>
  The argument list of \<open>pool.starmap\<close> (line 349): per file, its resolved path and that
  path relative to the resolved directory. \<open>relative_to\<close> raises for a file that resolves
  outside the directory, and the comprehension stops there.
\<close>

fun starmap_args :: "env \<Rightarrow> path \<Rightarrow> path list \<Rightarrow> exn + (path \<times> path) list" where
  "starmap_args E path [] = Inr []"
| "starmap_args E path (file # rest) =
     (case relative_to (resolve E file) (resolve E path) of
        Inl e \<Rightarrow> Inl e
      | Inr rel \<Rightarrow>
          (case starmap_args E path rest of
             Inl e \<Rightarrow> Inl e
           | Inr args \<Rightarrow> Inr ((resolve E file, rel) # args)))"

text \<open>
  \<open>pool.starmap(upload_file_to_s3, args)\<close>. The tasks share nothing but the log and the
  store; the model runs them in the order of the list, one schedule among those the pool
  allows.
\<close>

fun starmap ::
  "env \<Rightarrow> s3_client \<Rightarrow> string \<Rightarrow> bool \<Rightarrow> (path \<times> path) list \<Rightarrow> world \<Rightarrow> world" where
  "starmap E s3_client s3_path dry_run [] w = w"
| "starmap E s3_client s3_path dry_run ((file_path, rel) # rest) w =
     starmap E s3_client s3_path dry_run rest
       (upload_file_to_s3 E s3_client file_path s3_path dry_run rel w)"

text \<open>
  The body of \<open>upload\<close>. The command line has already restricted \<open>dataset\<close> to the
  values of the enumeration and checked that \<open>path\<close> exists; \<open>processes\<close> is any
  integer. \<open>mpp.ThreadPool(processes)\<close> raises \<open>ValueError\<close> for a size below one;
  nothing in \<open>upload\<close> catches it, nor the \<open>ValueError\<close> of \<open>relative_to\<close>.
\<close>

definition upload :: "env \<Rightarrow> Dataset \<Rightarrow> path \<Rightarrow> int \<Rightarrow> bool \<Rightarrow> world \<Rightarrow> outcome \<times> world" where
  "upload E dataset path processes dry_run w =
     (case get_s3_client E w of
        (Inl out, w1) \<Rightarrow> (out, w1)
      | (Inr s3_client, w1) \<Rightarrow>
          (case now E w1 of (today, w2) \<Rightarrow>
            let s3_path = s3_path_of (dataset_value dataset) today in
            if is_dir E path then
              (let files = glob_files E path;
                   w3 = info (UploadingFiles (length files) (resolve E path)
                                (dataset_value dataset)) w2;
                   excel_files = filter is_excel_file files;
                   regular_files = filter (\<lambda>f. \<not> is_excel_file f) files;
                   w4 = info (FoundCounts (length excel_files) (length regular_files)) w3;
                   w5 = process_excel_files E s3_client s3_path dry_run excel_files w4
               in if regular_files \<noteq> [] then
                    (if processes < 1
                     then (Uncaught (ValueError ''Number of processes must be at least 1''), w5)
                     else (case starmap_args E path regular_files of
                             Inl e \<Rightarrow> (Uncaught e, w5)
                           | Inr args \<Rightarrow>
                               (Completed, starmap E s3_client s3_path dry_run args w5)))
                  else (Completed, w5))
            else if is_excel_file path then
              (Completed,
               process_excel_file E s3_client (resolve E path) s3_path dry_run
                 (info (SingleExcel (resolve E path) (dataset_value dataset)) w2))
            else
              (let w3 = info (SingleFile (resolve E path) (dataset_value dataset)) w2 in
               case relative_to (resolve E path) (resolve E (parent path)) of
                 Inl e \<Rightarrow> (Uncaught e, w3)
               | Inr rel \<Rightarrow>
                   (Completed,
                    upload_file_to_s3 E s3_client (resolve E path) s3_path dry_run rel w3))))"


section \<open>Notions of the specification\<close>

text \<open>
  The shape \<open>YYYY-MM-DD\<close> as the specification writes it: four decimal digits of the
  year, two of the month, two of the day, separated by hyphens.
\<close>

definition digits2 :: "nat \<Rightarrow> string" where
  "digits2 n = [digit_char (n div 10), digit_char (n mod 10)]"

definition digits4 :: "nat \<Rightarrow> string" where
  "digits4 n =
     [digit_char (n div 1000), digit_char (n div 100 mod 10),
      digit_char (n div 10 mod 10), digit_char (n mod 10)]"

definition yyyy_mm_dd :: "date \<Rightarrow> string" where
  "yyyy_mm_dd d = digits4 (year d) @ ''-'' @ digits2 (month d) @ ''-'' @ digits2 (day d)"


text \<open>
  The sheets of a workbook that load to a non-empty frame, in workbook order, and the
  sheets of the workbook at a path (none when the workbook does not open).
\<close>

fun loaded_frames :: "sheet list \<Rightarrow> (string \<times> dataframe) list" where
  "loaded_frames [] = []"
| "loaded_frames (sh # rest) =
     (case sheet_frame sh of
        Inl e \<Rightarrow> loaded_frames rest
      | Inr df \<Rightarrow> if df_empty df then loaded_frames rest
                  else (sheet_title sh, df) # loaded_frames rest)"

definition workbook_sheets :: "env \<Rightarrow> path \<Rightarrow> sheet list" where
  "workbook_sheets E file_path =
     (case pd_excel_file E file_path of Inl e \<Rightarrow> [] | Inr sheets \<Rightarrow> sheets)"

text \<open>
  The put expected for one sheet of the workbook at \<open>file_path\<close>, for one plain file given
  as (resolved path, relative path), and for all sheets of a workbook.
\<close>

definition sheet_put :: "string \<Rightarrow> path \<Rightarrow> string \<times> dataframe \<Rightarrow> put_call" where
  "sheet_put s3_path file_path td =
     UploadFileobj (sheet_s3_path s3_path (name file_path) (fst td)) (to_csv (snd td) True False)"

definition workbook_puts :: "env \<Rightarrow> string \<Rightarrow> path \<Rightarrow> put_call list" where
  "workbook_puts E s3_path file_path =
     map (sheet_put s3_path file_path) (loaded_frames (workbook_sheets E file_path))"

definition file_put :: "string \<Rightarrow> path \<times> path \<Rightarrow> put_call" where
  "file_put s3_path a = UploadFile (file_s3_path s3_path (snd a)) (fst a)"

text \<open>
  The uploads announced by the dry-run lines of a log, in order, each with its kind and
  its destination key.
\<close>

fun would_target :: "message \<Rightarrow> (upload_kind \<times> string) list" where
  "would_target (WouldUpload f k) = [(PlainFile, k)]"
| "would_target (WouldUploadSheet s f k) = [(SheetBuffer, k)]"
| "would_target _ = []"

definition would_targets :: "log_record list \<Rightarrow> (upload_kind \<times> string) list" where
  "would_targets rs = concat (map (\<lambda>r. would_target (message r)) rs)"

text \<open>
  The sheets of a workbook that load to an empty frame, and the warnings of a log that
  report a skipped sheet (sheet name and workbook path).
\<close>

fun empty_titles :: "sheet list \<Rightarrow> string list" where
  "empty_titles [] = []"
| "empty_titles (sh # rest) =
     (case sheet_frame sh of
        Inl e \<Rightarrow> empty_titles rest
      | Inr df \<Rightarrow> if df_empty df then sheet_title sh # empty_titles rest
                  else empty_titles rest)"

fun skip_warning :: "level \<Rightarrow> message \<Rightarrow> (string \<times> path) list" where
  "skip_warning WARNING (SheetEmpty t fp) = [(t, fp)]"
| "skip_warning lv m = []"

definition skip_warnings :: "log_record list \<Rightarrow> (string \<times> path) list" where
  "skip_warnings rs = concat (map (\<lambda>r. skip_warning (levelname r) (message r)) rs)"

text \<open>
  The puts expected of a directory run: the sheets of each spreadsheet file, then each
  plain file under its path relative to the resolved directory.
\<close>

definition excel_files_puts :: "env \<Rightarrow> string \<Rightarrow> path list \<Rightarrow> put_call list" where
  "excel_files_puts E s3_path files =
     concat (map (\<lambda>f. workbook_puts E s3_path (resolve E f)) files)"

definition plain_args :: "env \<Rightarrow> path \<Rightarrow> path list \<Rightarrow> (path \<times> path) list" where
  "plain_args E path files =
     map (\<lambda>f. (resolve E f, drop (length (resolve E path)) (resolve E f))) files"

definition directory_puts :: "env \<Rightarrow> string \<Rightarrow> path \<Rightarrow> put_call list" where
  "directory_puts E s3_path path =
     excel_files_puts E s3_path (filter is_excel_file (glob_files E path)) @
     map (file_put s3_path)
       (plain_args E path (filter (\<lambda>f. \<not> is_excel_file f) (glob_files E path)))"

definition directory_skips :: "env \<Rightarrow> path \<Rightarrow> (string \<times> path) list" where
  "directory_skips E path =
     concat (map (\<lambda>f. map (\<lambda>t. (t, resolve E f)) (empty_titles (workbook_sheets E (resolve E f))))
               (filter is_excel_file (glob_files E path)))"


text \<open>
  The puts expected of any run of \<open>upload\<close> once the client exists, and of the loop of
  \<open>upload_dashboard\<close> started at clock reading \<open>n\<close>.
\<close>

definition upload_puts :: "env \<Rightarrow> string \<Rightarrow> path \<Rightarrow> int \<Rightarrow> put_call list" where
  "upload_puts E s3_path path processes =
     (if is_dir E path then
        excel_files_puts E s3_path (filter is_excel_file (glob_files E path)) @
        (if filter (\<lambda>f. \<not> is_excel_file f) (glob_files E path) \<noteq> [] \<and> 1 \<le> processes
         then (case starmap_args E path (filter (\<lambda>f. \<not> is_excel_file f) (glob_files E path)) of
                 Inl e \<Rightarrow> []
               | Inr args \<Rightarrow> map (file_put s3_path) args)
         else [])
      else if is_excel_file path then workbook_puts E s3_path (resolve E path)
      else (case relative_to (resolve E path) (resolve E (parent path)) of
              Inl e \<Rightarrow> []
            | Inr rel \<Rightarrow> [file_put s3_path (resolve E path, rel)]))"

definition mapping_puts :: "env \<Rightarrow> nat \<Rightarrow> mapping \<Rightarrow> put_call list" where
  "mapping_puts E n m =
     (let s3_path = s3_path_of (m_dataset m) (now_value E n) in
      if is_excel_file (m_file_path m) then workbook_puts E s3_path (m_file_path m)
      else [file_put s3_path
              (m_file_path m, drop (length (m_file_path m) - 1) (m_file_path m))])"

fun dashboard_puts :: "env \<Rightarrow> nat \<Rightarrow> mapping list \<Rightarrow> put_call list" where
  "dashboard_puts E n [] = []"
| "dashboard_puts E n (m # rest) =
     (if path_exists E (m_file_path m)
      then mapping_puts E n m @ dashboard_puts E (Suc n) rest
      else dashboard_puts E n rest)"

text \<open>The world after the loop body of \<open>upload_dashboard\<close> ran for one mapping.\<close>

definition mapping_step :: "env \<Rightarrow> s3_client \<Rightarrow> bool \<Rightarrow> mapping \<Rightarrow> world \<Rightarrow> world" where
  "mapping_step E s3_client dry_run m w =
     (let file_path = m_file_path m;
          w1 = info (DashboardProcessing (m_description m) (m_dataset m)) w
      in if \<not> path_exists E file_path
         then log_msg ERROR (DashboardFileNotFound file_path) None False w1
         else (let s3_path = s3_path_of (m_dataset m) (now_value E (clock_reads w1));
                   w2 = w1\<lparr>clock_reads := Suc (clock_reads w1)\<rparr>
               in if is_excel_file file_path
                  then process_excel_file E s3_client file_path s3_path dry_run
                         (info (DashboardExcel file_path (m_dataset m)) w2)
                  else upload_file_to_s3 E s3_client file_path s3_path dry_run
                         (drop (length file_path - 1) file_path)
                         (info (DashboardFile file_path (m_dataset m)) w2)))"


text \<open>
  The configurations the specification calls fatal: the file is missing, or it has no
  \<open>AWS\<close> section, or the section lacks one of the two fields, or one of the two values
  is empty. (Option names are stored in lower case.)
\<close>

definition credentials_missing :: "config_file \<Rightarrow> bool" where
  "credentials_missing cf =
     (case cf of
        Absent \<Rightarrow> True
      | Broken e \<Rightarrow> False
      | Parsed cfg \<Rightarrow>
          (case map_of cfg ''AWS'' of
             None \<Rightarrow> True
           | Some opts \<Rightarrow>
               (case map_of opts ''aws_access_key_id'' of
                  None \<Rightarrow> True
                | Some a \<Rightarrow>
                    (case map_of opts ''aws_secret_access_key'' of
                       None \<Rightarrow> True
                     | Some s \<Rightarrow> a = [] \<or> s = []))))"


section \<open>Example inputs\<close>

text \<open>
  A run on a directory \<open>data\<close> holding the workbook \<open>q.xlsx\<close> (sheet \<open>Jan\<close> with one data
  row, sheet \<open>Feb 2024\<close> with none), \<open>report.txt\<close> and \<open>.env\<close>. The clock returns
  2024-12-31 when first read and 2025-01-01 afterwards; every put succeeds; every path
  exists and opens as that workbook.
\<close>

definition world0 :: world where
  "world0 = \<lparr>clock_reads = 0, log_records = [], put_calls = [], clients = []\<rparr>"

definition q_sheets :: "sheet list" where
  "q_sheets =
     [\<lparr>sheet_title = ''Jan'',
       sheet_frame = Inr \<lparr>columns = [''city'', ''visits''], data_rows = [[''Atlanta'', ''12'']]\<rparr>\<rparr>,
      \<lparr>sheet_title = ''Feb 2024'',
       sheet_frame = Inr \<lparr>columns = [''city'', ''visits''], data_rows = []\<rparr>\<rparr>]"

definition env0 :: env where
  "env0 =
     \<lparr>now_value = (\<lambda>n. if n = 0 then \<lparr>year = 2024, month = 12, day = 31\<rparr>
                         else \<lparr>year = 2025, month = 1, day = 1\<rparr>),
      put_raises = (\<lambda>n. None),
      config_file = Parsed [(''AWS'', [(''aws_access_key_id'', ''AKIAEXAMPLE''),
                                        (''aws_secret_access_key'', ''secret'')])],
      is_dir = (\<lambda>p. p = [''data'']),
      glob_files = (\<lambda>p. [p @ [''q.xlsx''], p @ [''report.txt''], p @ [''.env'']]),
      resolve = (\<lambda>p. [''/'', ''srv''] @ p),
      path_exists = (\<lambda>p. True),
      pd_excel_file = (\<lambda>p. Inr q_sheets)\<rparr>"

text \<open>The same run with a store whose every put raises.\<close>

definition env_failing :: env where
  "env_failing = env0\<lparr>put_raises := (\<lambda>n. Some (OtherException ''timeout''))\<rparr>"


section \<open>Facts about strings\<close>

lemma str_replace_char:
  "str_replace [a] [b] s = map (\<lambda>c. if c = a then b else c) s"
proof (induction s)
  case Nil
  show ?case by (subst str_replace.simps) simp
next
  case (Cons x xs)
  show ?case by (subst str_replace.simps) (simp add: Cons.IH)
qed

lemma safe_sheet_name_map:
  "safe_sheet_name s =
     map (\<lambda>c. if c = CHR ''/'' \<or> c = backslash \<or> c = CHR '' '' then CHR ''_'' else c) s"
  by (simp add: safe_sheet_name_def str_replace_char backslash_def)

text \<open>
  C9: sheet-name sanitization is idempotent: sanitizing a sanitized name gives the
  sanitized name again.
\<close>

theorem safe_sheet_name_idempotent:
  "safe_sheet_name (safe_sheet_name s) = safe_sheet_name s"
  by (simp add: safe_sheet_name_map backslash_def)

section \<open>Facts about dates and the key prefix\<close>

lemma char_of_nat_eq: "char_of (n::nat) = c \<longleftrightarrow> n mod 256 = of_char c"
  by (simp add: char_of_eq_iff take_bit_eq_mod)

lemma digit_char_not_slash: "n < 10 \<Longrightarrow> digit_char n \<noteq> CHR ''/''"
  by (simp add: digit_char_def char_of_nat_eq)

lemma digit_char_0: "digit_char 0 = CHR ''0''"
  by (simp add: digit_char_def char_of_nat_eq)

lemma str_nat_lt10: "n < 10 \<Longrightarrow> str_nat n = [digit_char n]"
  by (subst str_nat.simps) simp

lemma str_nat_ge10: "10 \<le> n \<Longrightarrow> str_nat n = str_nat (n div 10) @ [digit_char (n mod 10)]"
  by (subst str_nat.simps) simp

lemma replicate_small:
  "replicate 3 x = [x, x, x]" "replicate 2 x = [x, x]"
  by (simp_all add: numeral_3_eq_3 numeral_2_eq_2)

lemma zfill2:
  assumes "n < 100"
  shows "zfill 2 (str_nat n) = digits2 n"
proof (cases "n < 10")
  case True
  then show ?thesis by (simp add: zfill_def str_nat_lt10 digits2_def digit_char_0)
next
  case False
  with assms have "n div 10 < 10" by simp
  with False show ?thesis
    by (simp add: zfill_def str_nat_ge10 str_nat_lt10 digits2_def)
qed

lemma zfill4:
  assumes "n < 10000"
  shows "zfill 4 (str_nat n) = digits4 n"
proof -
  consider "n < 10" | "10 \<le> n" "n < 100" | "100 \<le> n" "n < 1000" | "1000 \<le> n"
    by linarith
  then show ?thesis
  proof cases
    case 1
    then show ?thesis
      by (simp add: zfill_def str_nat_lt10 digits4_def digit_char_0 replicate_small)
  next
    case 2
    then have "n div 10 < 10" by simp
    with 2 show ?thesis
      by (simp add: zfill_def str_nat_ge10 str_nat_lt10 digits4_def digit_char_0
          replicate_small)
  next
    case 3
    then have a: "10 \<le> n div 10" and b: "n div 10 div 10 < 10" by simp_all
    have c: "n div 100 = n div 10 div 10" by (simp add: div_mult2_eq)
    from 3 a b show ?thesis
      by (simp add: zfill_def str_nat_ge10 str_nat_lt10 digits4_def digit_char_0 c)
  next
    case 4
    then have a: "10 \<le> n div 10" and b: "10 \<le> n div 10 div 10" by simp_all
    from assms have d: "n div 10 div 10 div 10 < 10" by simp
    have c: "n div 100 = n div 10 div 10" "n div 1000 = n div 10 div 10 div 10"
      by (simp_all add: div_mult2_eq)
    from 4 a b d show ?thesis
      by (simp add: zfill_def str_nat_ge10 str_nat_lt10 digits4_def c)
  qed
qed

lemma date_ok_bounds:
  assumes "date_ok d"
  shows "year d < 10000" "month d \<le> 12" "day d \<le> 31"
  using assms by (auto simp: date_ok_def days_in_month_def split: if_splits)

lemma strftime_ymd_digits:
  assumes "date_ok d"
  shows "strftime_ymd d = yyyy_mm_dd d"
  using date_ok_bounds[OF assms] by (simp add: strftime_ymd_def yyyy_mm_dd_def zfill2 zfill4)

lemma double_slash_append:
  "double_slash (xs @ ys) \<longleftrightarrow>
     double_slash xs \<or> double_slash ys \<or>
     (xs \<noteq> [] \<and> ys \<noteq> [] \<and> last xs = CHR ''/'' \<and> hd ys = CHR ''/'')"
proof (induction xs rule: double_slash.induct)
  show "double_slash ([] @ ys) \<longleftrightarrow>
     double_slash [] \<or> double_slash ys \<or>
     ([] \<noteq> [] \<and> ys \<noteq> [] \<and> last [] = CHR ''/'' \<and> hd ys = CHR ''/'')"
    by simp
next
  fix v
  show "double_slash ([v] @ ys) \<longleftrightarrow>
     double_slash [v] \<or> double_slash ys \<or>
     ([v] \<noteq> [] \<and> ys \<noteq> [] \<and> last [v] = CHR ''/'' \<and> hd ys = CHR ''/'')"
    by (cases ys) auto
qed auto

lemma s3_path_no_double_slash:
  assumes "date_ok d"
  shows "\<not> double_slash (s3_path_of (dataset_value ds) d)"
proof -
  note b = date_ok_bounds[OF assms]
  have "year d div 1000 < 10" "year d div 100 mod 10 < 10" "year d div 10 mod 10 < 10"
    "year d mod 10 < 10" "month d div 10 < 10" "month d mod 10 < 10"
    "day d div 10 < 10" "day d mod 10 < 10"
    using b by simp_all
  then show ?thesis
    by (cases ds)
      (simp_all add: s3_path_of_def strftime_ymd_digits[OF assms] yyyy_mm_dd_def
        digits4_def digits2_def digit_char_not_slash)
qed

lemma s3_path_trailing_slash:
  assumes "date_ok d"
  shows "last (s3_path_of ds d) = CHR ''/''"
    and "last (butlast (s3_path_of ds d)) \<noteq> CHR ''/''"
proof -
  show "last (s3_path_of ds d) = CHR ''/''" by (simp add: s3_path_of_def)
  have "day d mod 10 < 10" by simp
  then have "digit_char (day d mod 10) \<noteq> CHR ''/''" by (rule digit_char_not_slash)
  moreover have "butlast (s3_path_of ds d) =
      ''delivery/dataset='' @ ds @ ''/status=staged/delivery-date='' @ yyyy_mm_dd d"
    by (simp add: s3_path_of_def strftime_ymd_digits[OF assms] butlast_append)
  ultimately show "last (butlast (s3_path_of ds d)) \<noteq> CHR ''/''"
    by (simp add: yyyy_mm_dd_def digits2_def)
qed

text \<open>
  C1: for each of the two datasets and every date a \<open>datetime\<close> can hold, the prefix
  computed by \<open>upload\<close> and by \<open>upload_dashboard\<close> is exactly
  \<open>delivery/dataset=<dataset>/status=staged/delivery-date=<YYYY-MM-DD>/\<close> for that date;
  it ends in one slash, not two, and holds no two adjacent slashes. The dataset strings
  of the predefined mappings are the values of the enumeration.
\<close>

theorem s3_path_exact:
  assumes "date_ok today"
  shows "s3_path_of (dataset_value ds) today =
           ''delivery/dataset='' @ dataset_value ds @ ''/status=staged/delivery-date='' @
           yyyy_mm_dd today @ ''/'' \<and>
         length (yyyy_mm_dd today) = 10 \<and>
         last (s3_path_of (dataset_value ds) today) = CHR ''/'' \<and>
         last (butlast (s3_path_of (dataset_value ds) today)) \<noteq> CHR ''/'' \<and>
         \<not> double_slash (s3_path_of (dataset_value ds) today) \<and>
         map m_dataset file_mappings = map dataset_value [WINISTRY, SPARKLOFT]"
proof -
  have "s3_path_of (dataset_value ds) today =
      ''delivery/dataset='' @ dataset_value ds @ ''/status=staged/delivery-date='' @
      yyyy_mm_dd today @ ''/''"
    by (simp add: s3_path_of_def strftime_ymd_digits[OF assms])
  moreover have "length (yyyy_mm_dd today) = 10"
    by (simp add: yyyy_mm_dd_def digits4_def digits2_def)
  moreover have "map m_dataset file_mappings = map dataset_value [WINISTRY, SPARKLOFT]"
    by (simp add: file_mappings_def)
  ultimately show ?thesis
    using s3_path_trailing_slash[OF assms] s3_path_no_double_slash[OF assms] by blast
qed

theorem s3_path_exact_witness:
  "date_ok \<lparr>year = 2024, month = 2, day = 29\<rparr> \<and>
   s3_path_of (dataset_value SPARKLOFT) \<lparr>year = 2024, month = 2, day = 29\<rparr> =
     ''delivery/dataset=sparkloft/status=staged/delivery-date=2024-02-29/''"
proof -
  have h: "date_ok \<lparr>year = 2024, month = 2, day = 29\<rparr>"
    by (simp add: date_ok_def days_in_month_def is_leap_def)
  have "yyyy_mm_dd \<lparr>year = 2024, month = 2, day = 29\<rparr> = ''2024-02-29''"
    by (simp add: yyyy_mm_dd_def digits4_def digits2_def digit_char_def char_of_nat_eq)
  with s3_path_exact[OF h, of SPARKLOFT] h show ?thesis by simp
qed

section \<open>Effects of the uploaders and of workbook expansion\<close>

lemma would_targets_append [simp]:
  "would_targets (xs @ ys) = would_targets xs @ would_targets ys"
  by (simp add: would_targets_def)

lemma would_targets_Nil [simp]: "would_targets [] = []"
  by (simp add: would_targets_def)

lemma would_targets_Cons [simp]:
  "would_targets (r # rs) = would_target (message r) @ would_targets rs"
  by (simp add: would_targets_def)

lemma skip_warnings_append [simp]:
  "skip_warnings (xs @ ys) = skip_warnings xs @ skip_warnings ys"
  by (simp add: skip_warnings_def)

lemma skip_warnings_Nil [simp]: "skip_warnings [] = []"
  by (simp add: skip_warnings_def)

lemma skip_warnings_Cons [simp]:
  "skip_warnings (r # rs) = skip_warning (levelname r) (message r) @ skip_warnings rs"
  by (simp add: skip_warnings_def)

lemma log_msg_fields [simp]:
  "put_calls (log_msg lv m e st w) = put_calls w"
  "clock_reads (log_msg lv m e st w) = clock_reads w"
  "clients (log_msg lv m e st w) = clients w"
  "log_records (log_msg lv m e st w) =
     log_records w @ [\<lparr>levelname = lv, message = m, exc_info = e, stack_info = st\<rparr>]"
  by (simp_all add: log_msg_def)

lemma info_fields [simp]:
  "put_calls (info m w) = put_calls w"
  "clock_reads (info m w) = clock_reads w"
  "clients (info m w) = clients w"
  "log_records (info m w) =
     log_records w @ [\<lparr>levelname = INFO, message = m, exc_info = None, stack_info = False\<rparr>]"
  by (simp_all add: info_def)

lemma upload_file_fields:
  "put_calls (upload_file_to_s3 E c fp s3 dry rel w) =
     put_calls w @ (if dry then [] else [UploadFile (file_s3_path s3 rel) fp])"
  "would_targets (log_records (upload_file_to_s3 E c fp s3 dry rel w)) =
     would_targets (log_records w) @ (if dry then [(PlainFile, file_s3_path s3 rel)] else [])"
  "skip_warnings (log_records (upload_file_to_s3 E c fp s3 dry rel w)) =
     skip_warnings (log_records w)"
  "clock_reads (upload_file_to_s3 E c fp s3 dry rel w) = clock_reads w"
  "clients (upload_file_to_s3 E c fp s3 dry rel w) = clients w"
  by (simp_all add: upload_file_to_s3_def s3_put_def Let_def split: option.split)

lemma upload_csv_fields:
  "put_calls (upload_csv_buffer_to_s3 E c buf s3 fn sn dry w) =
     put_calls w @ (if dry then [] else [UploadFileobj (sheet_s3_path s3 fn sn) buf])"
  "would_targets (log_records (upload_csv_buffer_to_s3 E c buf s3 fn sn dry w)) =
     would_targets (log_records w) @ (if dry then [(SheetBuffer, sheet_s3_path s3 fn sn)] else [])"
  "skip_warnings (log_records (upload_csv_buffer_to_s3 E c buf s3 fn sn dry w)) =
     skip_warnings (log_records w)"
  "clock_reads (upload_csv_buffer_to_s3 E c buf s3 fn sn dry w) = clock_reads w"
  "clients (upload_csv_buffer_to_s3 E c buf s3 fn sn dry w) = clients w"
  by (simp_all add: upload_csv_buffer_to_s3_def s3_put_def Let_def split: option.split)

lemma process_sheets_puts:
  "put_calls (process_sheets E c fp s3 dry shs w) =
     put_calls w @ (if dry then [] else map (sheet_put s3 fp) (loaded_frames shs))"
  by (induction shs arbitrary: w) (simp_all add: upload_csv_fields sheet_put_def split: sum.split)

lemma process_sheets_would:
  "would_targets (log_records (process_sheets E c fp s3 dry shs w)) =
     would_targets (log_records w) @
     (if dry then map put_target (map (sheet_put s3 fp) (loaded_frames shs)) else [])"
  by (induction shs arbitrary: w) (simp_all add: upload_csv_fields sheet_put_def split: sum.split)

lemma process_sheets_skips:
  "skip_warnings (log_records (process_sheets E c fp s3 dry shs w)) =
     skip_warnings (log_records w) @ map (\<lambda>t. (t, fp)) (empty_titles shs)"
  by (induction shs arbitrary: w) (simp_all add: upload_csv_fields split: sum.split)

lemma process_sheets_frame:
  "clock_reads (process_sheets E c fp s3 dry shs w) = clock_reads w"
  "clients (process_sheets E c fp s3 dry shs w) = clients w"
  by (induction shs arbitrary: w) (simp_all add: upload_csv_fields split: sum.split)

lemma process_excel_file_fields:
  "put_calls (process_excel_file E c fp s3 dry w) =
     put_calls w @ (if dry then [] else workbook_puts E s3 fp)"
  "would_targets (log_records (process_excel_file E c fp s3 dry w)) =
     would_targets (log_records w) @ (if dry then map put_target (workbook_puts E s3 fp) else [])"
  "skip_warnings (log_records (process_excel_file E c fp s3 dry w)) =
     skip_warnings (log_records w) @ map (\<lambda>t. (t, fp)) (empty_titles (workbook_sheets E fp))"
  "clock_reads (process_excel_file E c fp s3 dry w) = clock_reads w"
  "clients (process_excel_file E c fp s3 dry w) = clients w"
  by (simp_all add: process_excel_file_def Let_def workbook_puts_def workbook_sheets_def
      process_sheets_puts process_sheets_would process_sheets_skips process_sheets_frame
      split: sum.split)

lemma process_excel_files_fields:
  "put_calls (process_excel_files E c s3 dry files w) =
     put_calls w @ (if dry then [] else excel_files_puts E s3 files)"
  "would_targets (log_records (process_excel_files E c s3 dry files w)) =
     would_targets (log_records w) @
     (if dry then map put_target (excel_files_puts E s3 files) else [])"
  "skip_warnings (log_records (process_excel_files E c s3 dry files w)) =
     skip_warnings (log_records w) @
     concat (map (\<lambda>f. map (\<lambda>t. (t, resolve E f)) (empty_titles (workbook_sheets E (resolve E f))))
               files)"
  "clock_reads (process_excel_files E c s3 dry files w) = clock_reads w"
  "clients (process_excel_files E c s3 dry files w) = clients w"
  by (induction files arbitrary: w)
    (simp_all add: process_excel_file_fields excel_files_puts_def)

lemma starmap_fields:
  "put_calls (starmap E c s3 dry args w) =
     put_calls w @ (if dry then [] else map (file_put s3) args)"
  "would_targets (log_records (starmap E c s3 dry args w)) =
     would_targets (log_records w) @ (if dry then map put_target (map (file_put s3) args) else [])"
  "skip_warnings (log_records (starmap E c s3 dry args w)) = skip_warnings (log_records w)"
  "clock_reads (starmap E c s3 dry args w) = clock_reads w"
  "clients (starmap E c s3 dry args w) = clients w"
  by (induction E c s3 dry args w rule: starmap.induct)
    (simp_all add: upload_file_fields file_put_def)

lemma starmap_args_inside:
  assumes "\<forall>f \<in> set files. prefix (resolve E path) (resolve E f)"
  shows "starmap_args E path files = Inr (plain_args E path files)"
  using assms by (induction files) (simp_all add: plain_args_def relative_to_def)

lemma get_s3_client_frame:
  "put_calls (snd (get_s3_client E w)) = put_calls w"
  "clock_reads (snd (get_s3_client E w)) = clock_reads w"
  "would_targets (log_records (snd (get_s3_client E w))) = would_targets (log_records w)"
  "skip_warnings (log_records (snd (get_s3_client E w))) = skip_warnings (log_records w)"
  by (simp_all add: get_s3_client_def Let_def split: config_file.split sum.split)

lemma get_s3_client_world_independent:
  "fst (get_s3_client E w) = fst (get_s3_client E w')"
  by (simp add: get_s3_client_def Let_def split: config_file.split sum.split)

section \<open>The example run\<close>

lemma lower_keys:
  "lower ''AWS_ACCESS_KEY_ID'' = ''aws_access_key_id''"
  "lower ''AWS_SECRET_ACCESS_KEY'' = ''aws_secret_access_key''"
  by (simp_all add: lower_def lower_char_def char_of_nat_eq)

lemma env0_client:
  "get_s3_client env0 w =
     (Inr (''AKIAEXAMPLE'', ''secret''),
      (info UsingCredentials w)\<lparr>clients := clients w @ [(''AKIAEXAMPLE'', ''secret'')]\<rparr>)"
  by (simp add: get_s3_client_def env0_def config_get_def lower_keys Let_def)

lemma excel_examples:
  "is_excel_file (p @ [''q.xlsx''])"
  "\<not> is_excel_file (p @ [''report.txt''])"
  "\<not> is_excel_file (p @ [''.env''])"
  by (simp_all add: is_excel_file_def suffix_of_def name_def rfind_def lower_def
      lower_char_def char_of_nat_eq)

lemma s3_path_examples:
  "s3_path_of ''winistry'' \<lparr>year = 2024, month = 12, day = 31\<rparr> =
     ''delivery/dataset=winistry/status=staged/delivery-date=2024-12-31/''"
  "s3_path_of ''sparkloft'' \<lparr>year = 2025, month = 1, day = 1\<rparr> =
     ''delivery/dataset=sparkloft/status=staged/delivery-date=2025-01-01/''"
proof -
  have "date_ok \<lparr>year = 2024, month = 12, day = 31\<rparr>"
    "date_ok \<lparr>year = 2025, month = 1, day = 1\<rparr>"
    by (simp_all add: date_ok_def days_in_month_def)
  then show
    "s3_path_of ''winistry'' \<lparr>year = 2024, month = 12, day = 31\<rparr> =
       ''delivery/dataset=winistry/status=staged/delivery-date=2024-12-31/''"
    "s3_path_of ''sparkloft'' \<lparr>year = 2025, month = 1, day = 1\<rparr> =
       ''delivery/dataset=sparkloft/status=staged/delivery-date=2025-01-01/''"
    by (simp_all add: s3_path_of_def strftime_ymd_digits yyyy_mm_dd_def digits4_def digits2_def
        digit_char_def char_of_nat_eq)
qed

lemma q_loaded:
  "loaded_frames q_sheets =
     [(''Jan'', \<lparr>columns = [''city'', ''visits''], data_rows = [[''Atlanta'', ''12'']]\<rparr>)]"
  "empty_titles q_sheets = [''Feb 2024'']"
  by (simp_all add: q_sheets_def df_empty_def)

lemma q_csv:
  "to_csv \<lparr>columns = [''city'', ''visits''], data_rows = [[''Atlanta'', ''12'']]\<rparr> True False =
     ''city,visits'' @ [CHR 0x0A] @ ''Atlanta,12'' @ [CHR 0x0A]"
  by (simp add: to_csv_def csv_line_def csv_field_def)

lemma q_key:
  "sheet_s3_path s3 ''q.xlsx'' ''Jan'' = s3 @ ''q_Jan.csv''"
  by (simp add: sheet_s3_path_def stem_def name_def rfind_def safe_sheet_name_map Let_def
      backslash_def)

lemma env0_workbook_puts:
  assumes "name fp = ''q.xlsx''"
  shows "workbook_puts env0 s3 fp =
     [UploadFileobj (s3 @ ''q_Jan.csv'') (''city,visits'' @ [CHR 0x0A] @ ''Atlanta,12'' @ [CHR 0x0A])]"
  by (simp add: workbook_puts_def workbook_sheets_def env0_def q_loaded sheet_put_def assms
      q_csv q_key)

lemma file_key_examples:
  "file_s3_path s3 [''report.txt''] = s3 @ ''report.txt''"
  "file_s3_path s3 [''.env''] = s3 @ ''env''"
  by (simp_all add: file_s3_path_def lstrip_def as_posix_def)

lemma env0_directory:
  "is_dir env0 [''data'']"
  "filter is_excel_file (glob_files env0 [''data'']) = [[''data'', ''q.xlsx'']]"
  "filter (\<lambda>f. \<not> is_excel_file f) (glob_files env0 [''data'']) =
     [[''data'', ''report.txt''], [''data'', ''.env'']]"
  using excel_examples[of "[''data'']"] by (simp_all add: env0_def)

lemma env0_directory_puts:
  "directory_puts env0 s3 [''data''] =
     [UploadFileobj (s3 @ ''q_Jan.csv'') (''city,visits'' @ [CHR 0x0A] @ ''Atlanta,12'' @ [CHR 0x0A]),
      UploadFile (s3 @ ''report.txt'') [''/'', ''srv'', ''data'', ''report.txt''],
      UploadFile (s3 @ ''env'') [''/'', ''srv'', ''data'', ''.env'']]"
proof -
  have "name (resolve env0 [''data'', ''q.xlsx'']) = ''q.xlsx''"
    by (simp add: env0_def name_def)
  then have "excel_files_puts env0 s3 [[''data'', ''q.xlsx'']] =
      [UploadFileobj (s3 @ ''q_Jan.csv'')
         (''city,visits'' @ [CHR 0x0A] @ ''Atlanta,12'' @ [CHR 0x0A])]"
    by (simp add: excel_files_puts_def env0_workbook_puts)
  moreover have "map (file_put s3)
       (plain_args env0 [''data''] [[''data'', ''report.txt''], [''data'', ''.env'']]) =
     [UploadFile (s3 @ ''report.txt'') [''/'', ''srv'', ''data'', ''report.txt''],
      UploadFile (s3 @ ''env'') [''/'', ''srv'', ''data'', ''.env'']]"
    by (simp add: plain_args_def file_put_def env0_def file_key_examples)
  ultimately show ?thesis
    by (simp add: directory_puts_def env0_directory)
qed


section \<open>Directory runs of the upload command\<close>

lemma upload_directory:
  fixes E :: env and ds :: Dataset and dry :: bool and w :: world
  assumes creds: "fst (get_s3_client E w) = Inr c"
    and dir: "is_dir E path"
    and pool: "1 \<le> processes"
    and inside: "\<forall>f \<in> set (filter (\<lambda>f. \<not> is_excel_file f) (glob_files E path)).
                   prefix (resolve E path) (resolve E f)"
  defines "s3 \<equiv> s3_path_of (dataset_value ds) (now_value E (clock_reads w))"
  defines "r \<equiv> upload E ds path processes dry w"
  shows "fst r = Completed"
    and "put_calls (snd r) = put_calls w @ (if dry then [] else directory_puts E s3 path)"
    and "would_targets (log_records (snd r)) =
           would_targets (log_records w) @
           (if dry then map put_target (directory_puts E s3 path) else [])"
    and "skip_warnings (log_records (snd r)) =
           skip_warnings (log_records w) @ directory_skips E path"
    and "clock_reads (snd r) = Suc (clock_reads w)"
proof -
  obtain w1 where g: "get_s3_client E w = (Inr c, w1)"
    using creds by (cases "get_s3_client E w") simp
  have w1: "put_calls w1 = put_calls w" "clock_reads w1 = clock_reads w"
    "would_targets (log_records w1) = would_targets (log_records w)"
    "skip_warnings (log_records w1) = skip_warnings (log_records w)"
    using get_s3_client_frame[of E w] g by simp_all
  note args = starmap_args_inside[OF inside]
  show "fst r = Completed"
    using pool by (simp add: r_def upload_def g now_def Let_def dir args)
  show "put_calls (snd r) = put_calls w @ (if dry then [] else directory_puts E s3 path)"
    using pool
    by (simp add: r_def upload_def g now_def Let_def dir args w1 s3_def directory_puts_def
        process_excel_files_fields starmap_fields plain_args_def)
  show "would_targets (log_records (snd r)) =
           would_targets (log_records w) @
           (if dry then map put_target (directory_puts E s3 path) else [])"
    using pool
    by (simp add: r_def upload_def g now_def Let_def dir args w1 s3_def directory_puts_def
        process_excel_files_fields starmap_fields plain_args_def)
  show "skip_warnings (log_records (snd r)) =
           skip_warnings (log_records w) @ directory_skips E path"
    using pool
    by (simp add: r_def upload_def g now_def Let_def dir args w1 directory_skips_def
        process_excel_files_fields starmap_fields)
  show "clock_reads (snd r) = Suc (clock_reads w)"
    using pool
    by (simp add: r_def upload_def g now_def Let_def dir args w1
        process_excel_files_fields starmap_fields)
qed

lemma put_target_kinds [simp]:
  "fst (put_target (sheet_put s3 fp td)) = SheetBuffer"
  "fst (put_target (file_put s3 a)) = PlainFile"
  by (simp_all add: sheet_put_def file_put_def)

lemma excel_files_puts_kinds:
  "filter (\<lambda>p. fst (put_target p) = PlainFile) (excel_files_puts E s3 files) = []"
  "filter (\<lambda>p. fst (put_target p) = SheetBuffer) (excel_files_puts E s3 files) =
     excel_files_puts E s3 files"
  by (induction files) (simp_all add: excel_files_puts_def workbook_puts_def filter_map o_def)

lemma length_excel_files_puts:
  "length (excel_files_puts E s3 files) =
     sum_list (map (\<lambda>f. length (loaded_frames (workbook_sheets E (resolve E f)))) files)"
  by (induction files) (simp_all add: excel_files_puts_def workbook_puts_def)

lemma directory_puts_counts:
  "length (filter (\<lambda>p. fst (put_target p) = PlainFile) (directory_puts E s3 path)) =
     length (filter (\<lambda>f. \<not> is_excel_file f) (glob_files E path))"
  "length (filter (\<lambda>p. fst (put_target p) = SheetBuffer) (directory_puts E s3 path)) =
     sum_list (map (\<lambda>f. length (loaded_frames (workbook_sheets E (resolve E f))))
                 (filter is_excel_file (glob_files E path)))"
  by (simp_all add: directory_puts_def excel_files_puts_kinds length_excel_files_puts
      plain_args_def filter_map o_def)

text \<open>
  C2, as amended: when the credentials load, the pool size is at least one and every
  plain file resolves to a path under the resolved directory, a directory run makes
  exactly the puts of \<open>directory_puts\<close>: one per plain file (\<open>N\<close> of them) and one per
  sheet that loads to a non-empty frame (the sum of the \<open>S\<^sub>i\<close>); a dry run makes no put and
  announces the same uploads; every empty sheet yields one warning and no put.
\<close>

theorem upload_directory_counts:
  fixes E :: env and ds :: Dataset and w :: world
  assumes creds: "fst (get_s3_client E w) = Inr c"
    and dir: "is_dir E path"
    and pool: "1 \<le> processes"
    and inside: "\<forall>f \<in> set (filter (\<lambda>f. \<not> is_excel_file f) (glob_files E path)).
                   prefix (resolve E path) (resolve E f)"
  defines "s3 \<equiv> s3_path_of (dataset_value ds) (now_value E (clock_reads w))"
  defines "real \<equiv> snd (upload E ds path processes False w)"
  defines "dry \<equiv> snd (upload E ds path processes True w)"
  shows "put_calls real = put_calls w @ directory_puts E s3 path \<and>
         length (filter (\<lambda>p. fst (put_target p) = PlainFile) (directory_puts E s3 path)) =
           length (filter (\<lambda>f. \<not> is_excel_file f) (glob_files E path)) \<and>
         length (filter (\<lambda>p. fst (put_target p) = SheetBuffer) (directory_puts E s3 path)) =
           sum_list (map (\<lambda>f. length (loaded_frames (workbook_sheets E (resolve E f))))
                       (filter is_excel_file (glob_files E path))) \<and>
         put_calls dry = put_calls w \<and>
         would_targets (log_records dry) =
           would_targets (log_records w) @ map put_target (directory_puts E s3 path) \<and>
         skip_warnings (log_records real) =
           skip_warnings (log_records w) @ directory_skips E path \<and>
         skip_warnings (log_records dry) =
           skip_warnings (log_records w) @ directory_skips E path"
  using upload_directory[OF creds dir pool inside, of ds False]
    upload_directory[OF creds dir pool inside, of ds True]
    directory_puts_counts[of E s3 path]
  by (simp add: real_def dry_def s3_def)

theorem upload_directory_counts_witness:
  "fst (get_s3_client env0 world0) = Inr (''AKIAEXAMPLE'', ''secret'') \<and>
   is_dir env0 [''data''] \<and> (1::int) \<le> 3 \<and>
   put_calls (snd (upload env0 WINISTRY [''data''] 3 False world0)) =
     [UploadFileobj ''delivery/dataset=winistry/status=staged/delivery-date=2024-12-31/q_Jan.csv''
        (''city,visits'' @ [CHR 0x0A] @ ''Atlanta,12'' @ [CHR 0x0A]),
      UploadFile ''delivery/dataset=winistry/status=staged/delivery-date=2024-12-31/report.txt''
        [''/'', ''srv'', ''data'', ''report.txt''],
      UploadFile ''delivery/dataset=winistry/status=staged/delivery-date=2024-12-31/env''
        [''/'', ''srv'', ''data'', ''.env'']] \<and>
   put_calls (snd (upload env0 WINISTRY [''data''] 3 True world0)) = []"
proof -
  have creds: "fst (get_s3_client env0 world0) = Inr (''AKIAEXAMPLE'', ''secret'')"
    by (simp add: env0_client)
  have dir: "is_dir env0 [''data'']" by (rule env0_directory)
  have pool: "(1::int) \<le> 3" by simp
  have inside: "\<forall>f \<in> set (filter (\<lambda>f. \<not> is_excel_file f) (glob_files env0 [''data''])).
      prefix (resolve env0 [''data'']) (resolve env0 f)"
    by (simp add: env0_directory) (simp add: env0_def)
  have now0: "now_value env0 (clock_reads world0) = \<lparr>year = 2024, month = 12, day = 31\<rparr>"
    by (simp add: env0_def world0_def)
  have w0: "put_calls world0 = []" by (simp add: world0_def)
  from upload_directory_counts[OF creds dir pool inside, of WINISTRY] creds dir
  show ?thesis
    by (simp add: now0 s3_path_examples env0_directory_puts w0)
qed

text \<open>
  C2 as stated fails: with a pool size of zero the pool constructor raises after the
  workbooks were expanded, and neither of the two plain files of the example directory is
  uploaded.
\<close>

theorem upload_directory_pool_counterexample:
  "length (filter (\<lambda>f. \<not> is_excel_file f) (glob_files env0 [''data''])) = 2 \<and>
   fst (upload env0 WINISTRY [''data''] 0 False world0) =
     Uncaught (ValueError ''Number of processes must be at least 1'') \<and>
   put_calls (snd (upload env0 WINISTRY [''data''] 0 False world0)) =
     [UploadFileobj ''delivery/dataset=winistry/status=staged/delivery-date=2024-12-31/q_Jan.csv''
        (''city,visits'' @ [CHR 0x0A] @ ''Atlanta,12'' @ [CHR 0x0A])]"
proof -
  have now0: "now_value env0 0 = \<lparr>year = 2024, month = 12, day = 31\<rparr>"
    by (simp add: env0_def)
  have res: "name (resolve env0 [''data'', ''q.xlsx'']) = ''q.xlsx''"
    by (simp add: env0_def name_def)
  show ?thesis
    by (simp add: upload_def env0_client now_def Let_def env0_directory world0_def now0
        s3_path_examples process_excel_file_fields env0_workbook_puts[OF res])
qed

section \<open>Effects of the two commands\<close>

lemma upload_general:
  fixes E :: env and ds :: Dataset and w :: world and path :: path and processes :: int
    and dry :: bool
  defines "s3 \<equiv> s3_path_of (dataset_value ds) (now_value E (clock_reads w))"
  defines "r \<equiv> upload E ds path processes dry w"
  defines "ok \<equiv> (case fst (get_s3_client E w) of Inl out \<Rightarrow> False | Inr c \<Rightarrow> True)"
  shows "put_calls (snd r) =
           put_calls w @ (if ok \<and> \<not> dry then upload_puts E s3 path processes else [])"
    and "would_targets (log_records (snd r)) =
           would_targets (log_records w) @
           (if ok \<and> dry then map put_target (upload_puts E s3 path processes) else [])"
    and "clock_reads (snd r) = clock_reads w + (if ok then 1 else 0)"
proof -
  obtain a w1 where g: "get_s3_client E w = (a, w1)"
    by (cases "get_s3_client E w")
  have w1: "put_calls w1 = put_calls w" "clock_reads w1 = clock_reads w"
    "would_targets (log_records w1) = would_targets (log_records w)"
    using get_s3_client_frame[of E w] g by simp_all
  show "put_calls (snd r) =
           put_calls w @ (if ok \<and> \<not> dry then upload_puts E s3 path processes else [])"
    by (cases a)
      (auto simp: r_def ok_def upload_def g now_def Let_def w1 s3_def upload_puts_def
        process_excel_files_fields process_excel_file_fields starmap_fields upload_file_fields
        file_put_def split: sum.split)
  show "would_targets (log_records (snd r)) =
           would_targets (log_records w) @
           (if ok \<and> dry then map put_target (upload_puts E s3 path processes) else [])"
    by (cases a)
      (auto simp: r_def ok_def upload_def g now_def Let_def w1 s3_def upload_puts_def
        process_excel_files_fields process_excel_file_fields starmap_fields upload_file_fields
        file_put_def split: sum.split)
  show "clock_reads (snd r) = clock_reads w + (if ok then 1 else 0)"
    by (cases a)
      (auto simp: r_def ok_def upload_def g now_def Let_def w1
        process_excel_files_fields process_excel_file_fields starmap_fields upload_file_fields
        split: sum.split)
qed

lemma relative_to_parent:
  "relative_to p (parent p) = Inr (drop (length p - 1) p)"
proof (cases "p = []")
  case True
  then show ?thesis by (simp add: relative_to_def parent_def)
next
  case False
  then have "p = butlast p @ [last p]" by simp
  then have "prefix (butlast p) p" by (rule prefixI)
  then show ?thesis by (simp add: relative_to_def parent_def)
qed

lemma dashboard_loop_Cons:
  "dashboard_loop E c dry (m # rest) w =
     dashboard_loop E c dry rest (mapping_step E c dry m w)"
  by (simp add: mapping_step_def Let_def now_def relative_to_parent)

lemma mapping_step_fields:
  "put_calls (mapping_step E c dry m w) =
     put_calls w @
     (if path_exists E (m_file_path m) \<and> \<not> dry then mapping_puts E (clock_reads w) m else [])"
  "would_targets (log_records (mapping_step E c dry m w)) =
     would_targets (log_records w) @
     (if path_exists E (m_file_path m) \<and> dry
      then map put_target (mapping_puts E (clock_reads w) m) else [])"
  "clock_reads (mapping_step E c dry m w) =
     clock_reads w + (if path_exists E (m_file_path m) then 1 else 0)"
  by (simp_all add: mapping_step_def Let_def mapping_puts_def process_excel_file_fields
      upload_file_fields file_put_def)

lemma dashboard_loop_outcome:
  "fst (dashboard_loop E c dry ms w) = Completed"
  by (induction ms arbitrary: w) (simp_all only: dashboard_loop.simps(1) dashboard_loop_Cons fst_conv)

lemma dashboard_loop_puts:
  "put_calls (snd (dashboard_loop E c dry ms w)) =
     put_calls w @ (if dry then [] else dashboard_puts E (clock_reads w) ms)"
proof (induction ms arbitrary: w)
  case Nil
  show ?case by simp
next
  case (Cons m ms)
  show ?case
    unfolding dashboard_loop_Cons Cons.IH
    by (simp add: mapping_step_fields)
qed

lemma dashboard_loop_would:
  "would_targets (log_records (snd (dashboard_loop E c dry ms w))) =
     would_targets (log_records w) @
     (if dry then map put_target (dashboard_puts E (clock_reads w) ms) else [])"
proof (induction ms arbitrary: w)
  case Nil
  show ?case by simp
next
  case (Cons m ms)
  show ?case
    unfolding dashboard_loop_Cons Cons.IH
    by (simp add: mapping_step_fields)
qed

lemma dashboard_loop_clock:
  "clock_reads (snd (dashboard_loop E c dry ms w)) =
     clock_reads w + length (filter (\<lambda>m. path_exists E (m_file_path m)) ms)"
proof (induction ms arbitrary: w)
  case Nil
  show ?case by simp
next
  case (Cons m ms)
  show ?case
    unfolding dashboard_loop_Cons Cons.IH
    by (simp add: mapping_step_fields)
qed

lemmas dashboard_loop_fields =
  dashboard_loop_puts dashboard_loop_would dashboard_loop_clock

lemma upload_dashboard_general:
  fixes E :: env and w :: world and processes :: int and dry :: bool
  defines "r \<equiv> upload_dashboard E processes dry w"
  defines "ok \<equiv> (case fst (get_s3_client E w) of Inl out \<Rightarrow> False | Inr c \<Rightarrow> True)"
  shows "put_calls (snd r) =
           put_calls w @
           (if ok \<and> \<not> dry then dashboard_puts E (clock_reads w) file_mappings else [])"
    and "would_targets (log_records (snd r)) =
           would_targets (log_records w) @
           (if ok \<and> dry then map put_target (dashboard_puts E (clock_reads w) file_mappings)
            else [])"
    and "clock_reads (snd r) =
           clock_reads w +
           (if ok then length (filter (\<lambda>m. path_exists E (m_file_path m)) file_mappings) else 0)"
    and "fst r = (case fst (get_s3_client E w) of Inl out \<Rightarrow> out | Inr c \<Rightarrow> Completed)"
proof -
  obtain a w1 where g: "get_s3_client E w = (a, w1)"
    by (cases "get_s3_client E w")
  have w1: "put_calls w1 = put_calls w" "clock_reads w1 = clock_reads w"
    "would_targets (log_records w1) = would_targets (log_records w)"
    using get_s3_client_frame[of E w] g by simp_all
  have "(put_calls (snd r) =
           put_calls w @
           (if ok \<and> \<not> dry then dashboard_puts E (clock_reads w) file_mappings else [])) \<and>
        (would_targets (log_records (snd r)) =
           would_targets (log_records w) @
           (if ok \<and> dry then map put_target (dashboard_puts E (clock_reads w) file_mappings)
            else [])) \<and>
        (clock_reads (snd r) =
           clock_reads w +
           (if ok then length (filter (\<lambda>m. path_exists E (m_file_path m)) file_mappings) else 0)) \<and>
        (fst r = (case fst (get_s3_client E w) of Inl out \<Rightarrow> out | Inr c \<Rightarrow> Completed))"
  proof (cases a)
    case (Inl out)
    then show ?thesis by (simp add: r_def ok_def upload_dashboard_def g w1)
  next
    case (Inr c)
    define w0 where "w0 = info DashboardStart w1"
    obtain out w2 where l: "dashboard_loop E c dry file_mappings w0 = (out, w2)"
      by (cases "dashboard_loop E c dry file_mappings w0")
    have out: "out = Completed"
      using dashboard_loop_outcome[of E c dry file_mappings w0] l by simp
    have w2: "w2 = snd (dashboard_loop E c dry file_mappings w0)"
      using l by simp
    have r: "r = (Completed, info DashboardDone w2)"
      using l out by (simp add: r_def upload_dashboard_def g Inr w0_def)
    show ?thesis
      by (simp add: r ok_def g Inr w2 dashboard_loop_fields w0_def w1)
  qed
  then show "put_calls (snd r) =
           put_calls w @
           (if ok \<and> \<not> dry then dashboard_puts E (clock_reads w) file_mappings else [])"
    and "would_targets (log_records (snd r)) =
           would_targets (log_records w) @
           (if ok \<and> dry then map put_target (dashboard_puts E (clock_reads w) file_mappings)
            else [])"
    and "clock_reads (snd r) =
           clock_reads w +
           (if ok then length (filter (\<lambda>m. path_exists E (m_file_path m)) file_mappings) else 0)"
    and "fst r = (case fst (get_s3_client E w) of Inl out \<Rightarrow> out | Inr c \<Rightarrow> Completed)"
    by simp_all
qed

section \<open>Dry runs\<close>

text \<open>
  C3: in dry-run mode neither uploader calls the store's put; each emits exactly one log
  line, which names the key the real upload of the same target puts under. For whole runs
  of either command: a dry run makes no put, and its dry-run lines name, in order, the
  kinds and keys of the puts that the real run of the same input makes.
\<close>

theorem dry_run_no_put:
  "put_calls (upload_file_to_s3 E c fp s3 True rel w) = put_calls w \<and>
   log_records (upload_file_to_s3 E c fp s3 True rel w) =
     log_records w @
     [\<lparr>levelname = INFO, message = WouldUpload fp (file_s3_path s3 rel),
       exc_info = None, stack_info = False\<rparr>] \<and>
   put_calls (upload_file_to_s3 E c fp s3 False rel w) =
     put_calls w @ [UploadFile (file_s3_path s3 rel) fp] \<and>
   put_calls (upload_csv_buffer_to_s3 E c buf s3 fname sn True w) = put_calls w \<and>
   log_records (upload_csv_buffer_to_s3 E c buf s3 fname sn True w) =
     log_records w @
     [\<lparr>levelname = INFO, message = WouldUploadSheet sn fname (sheet_s3_path s3 fname sn),
       exc_info = None, stack_info = False\<rparr>] \<and>
   put_calls (upload_csv_buffer_to_s3 E c buf s3 fname sn False w) =
     put_calls w @ [UploadFileobj (sheet_s3_path s3 fname sn) buf] \<and>
   put_calls (snd (upload E ds path processes True w)) = put_calls w \<and>
   would_targets (log_records (snd (upload E ds path processes True w))) =
     would_targets (log_records w) @
     map put_target
       (drop (length (put_calls w)) (put_calls (snd (upload E ds path processes False w)))) \<and>
   put_calls (snd (upload_dashboard E processes True w)) = put_calls w \<and>
   would_targets (log_records (snd (upload_dashboard E processes True w))) =
     would_targets (log_records w) @
     map put_target
       (drop (length (put_calls w)) (put_calls (snd (upload_dashboard E processes False w))))"
proof -
  have plain: "put_calls (upload_file_to_s3 E c fp s3 True rel w) = put_calls w"
    "log_records (upload_file_to_s3 E c fp s3 True rel w) =
       log_records w @
       [\<lparr>levelname = INFO, message = WouldUpload fp (file_s3_path s3 rel),
         exc_info = None, stack_info = False\<rparr>]"
    "put_calls (upload_file_to_s3 E c fp s3 False rel w) =
       put_calls w @ [UploadFile (file_s3_path s3 rel) fp]"
    by (simp_all add: upload_file_to_s3_def s3_put_def Let_def split: option.split)
  have csv: "put_calls (upload_csv_buffer_to_s3 E c buf s3 fname sn True w) = put_calls w"
    "log_records (upload_csv_buffer_to_s3 E c buf s3 fname sn True w) =
       log_records w @
       [\<lparr>levelname = INFO, message = WouldUploadSheet sn fname (sheet_s3_path s3 fname sn),
         exc_info = None, stack_info = False\<rparr>]"
    "put_calls (upload_csv_buffer_to_s3 E c buf s3 fname sn False w) =
       put_calls w @ [UploadFileobj (sheet_s3_path s3 fname sn) buf]"
    by (simp_all add: upload_csv_buffer_to_s3_def s3_put_def Let_def split: option.split)
  have up: "put_calls (snd (upload E ds path processes True w)) = put_calls w"
    "would_targets (log_records (snd (upload E ds path processes True w))) =
       would_targets (log_records w) @
       map put_target
         (drop (length (put_calls w)) (put_calls (snd (upload E ds path processes False w))))"
    by (simp_all add: upload_general)
  have dash: "put_calls (snd (upload_dashboard E processes True w)) = put_calls w"
    "would_targets (log_records (snd (upload_dashboard E processes True w))) =
       would_targets (log_records w) @
       map put_target
         (drop (length (put_calls w)) (put_calls (snd (upload_dashboard E processes False w))))"
    by (simp_all add: upload_dashboard_general)
  from plain csv up dash show ?thesis by blast
qed


section \<open>The pool size\<close>

text \<open>
  C10: \<open>upload_dashboard\<close> never reads its \<open>processes\<close> argument: two runs that differ
  only in that value return the same outcome and leave the same world (the same log
  records, puts, clients and clock reads).
\<close>

theorem upload_dashboard_ignores_processes:
  "upload_dashboard E processes dry_run w = upload_dashboard E processes' dry_run w"
  by (simp add: upload_dashboard_def)

text \<open>By contrast \<open>upload\<close> on a directory with a plain file does depend on it.\<close>

lemma upload_depends_on_processes:
  "fst (upload env0 WINISTRY [''data''] 0 False world0) \<noteq>
   fst (upload env0 WINISTRY [''data''] 3 False world0)"
proof -
  have "resolve env0 [''data''] = [''/'', ''srv'', ''data'']"
    "resolve env0 [''data'', ''report.txt''] = [''/'', ''srv'', ''data'', ''report.txt'']"
    "resolve env0 [''data'', ''.env''] = [''/'', ''srv'', ''data'', ''.env'']"
    by (simp_all add: env0_def)
  then show ?thesis
    by (simp add: upload_def env0_client now_def Let_def env0_directory relative_to_def)
qed

section \<open>Failing puts\<close>

lemma get_s3_client_put_raises [simp]:
  "get_s3_client (E\<lparr>put_raises := f\<rparr>) w = get_s3_client E w"
  by (simp add: get_s3_client_def)

lemma starmap_args_put_raises [simp]:
  "starmap_args (E\<lparr>put_raises := f\<rparr>) path files = starmap_args E path files"
  by (induction files) (simp_all split: sum.split)

lemma workbook_puts_put_raises [simp]:
  "workbook_puts (E\<lparr>put_raises := f\<rparr>) s3 fp = workbook_puts E s3 fp"
  by (simp add: workbook_puts_def workbook_sheets_def)

lemma upload_puts_put_raises [simp]:
  "upload_puts (E\<lparr>put_raises := f\<rparr>) s3 path n = upload_puts E s3 path n"
  by (simp add: upload_puts_def excel_files_puts_def split: sum.split)

lemma dashboard_puts_put_raises [simp]:
  "dashboard_puts (E\<lparr>put_raises := f\<rparr>) k ms = dashboard_puts E k ms"
  by (induction ms arbitrary: k)
    (simp_all add: mapping_puts_def Let_def)

lemma upload_outcome_put_raises:
  "fst (upload (E\<lparr>put_raises := f\<rparr>) ds path n dry w) = fst (upload E ds path n dry w)"
proof -
  obtain a w1 where g: "get_s3_client E w = (a, w1)"
    by (cases "get_s3_client E w")
  show ?thesis
    by (cases a) (simp_all add: upload_def g now_def Let_def split: sum.split)
qed

text \<open>
  C7: when the put of an upload attempt raises, the uploader (for a file or for a sheet
  buffer) records the attempt, logs one ERROR record carrying the exception and a stack
  trace, and returns. Which puts raise changes neither the outcome of a run nor the
  sequence of puts it attempts, for either command; \<open>upload_dashboard\<close> exits with
  status 0 whenever the credentials load.
\<close>

theorem upload_failure_not_fatal:
  assumes "put_raises E (length (put_calls w)) = Some e"
  shows "upload_file_to_s3 E c fp s3 False rel w =
           w\<lparr>put_calls := put_calls w @ [UploadFile (file_s3_path s3 rel) fp],
             log_records := log_records w @
               [\<lparr>levelname = ERROR, message = ErrorUploading fp,
                 exc_info = Some e, stack_info = True\<rparr>]\<rparr> \<and>
         upload_csv_buffer_to_s3 E c buf s3 fname sn False w =
           w\<lparr>put_calls := put_calls w @ [UploadFileobj (sheet_s3_path s3 fname sn) buf],
             log_records := log_records w @
               [\<lparr>levelname = ERROR, message = ErrorUploadingSheet sn fname,
                 exc_info = Some e, stack_info = True\<rparr>]\<rparr> \<and>
         (\<forall>f. fst (upload (E\<lparr>put_raises := f\<rparr>) ds path n dry w0) =
                fst (upload E ds path n dry w0) \<and>
              put_calls (snd (upload (E\<lparr>put_raises := f\<rparr>) ds path n dry w0)) =
                put_calls (snd (upload E ds path n dry w0))) \<and>
         (\<forall>f. fst (upload_dashboard (E\<lparr>put_raises := f\<rparr>) n dry w0) =
                fst (upload_dashboard E n dry w0) \<and>
              put_calls (snd (upload_dashboard (E\<lparr>put_raises := f\<rparr>) n dry w0)) =
                put_calls (snd (upload_dashboard E n dry w0))) \<and>
         exit_code (fst (upload_dashboard E n dry w0)) =
           (case fst (get_s3_client E w0) of Inl out \<Rightarrow> exit_code out | Inr c \<Rightarrow> 0)"
proof -
  have a: "upload_file_to_s3 E c fp s3 False rel w =
           w\<lparr>put_calls := put_calls w @ [UploadFile (file_s3_path s3 rel) fp],
             log_records := log_records w @
               [\<lparr>levelname = ERROR, message = ErrorUploading fp,
                 exc_info = Some e, stack_info = True\<rparr>]\<rparr>"
    using assms by (simp add: upload_file_to_s3_def s3_put_def Let_def log_msg_def)
  have b: "upload_csv_buffer_to_s3 E c buf s3 fname sn False w =
           w\<lparr>put_calls := put_calls w @ [UploadFileobj (sheet_s3_path s3 fname sn) buf],
             log_records := log_records w @
               [\<lparr>levelname = ERROR, message = ErrorUploadingSheet sn fname,
                 exc_info = Some e, stack_info = True\<rparr>]\<rparr>"
    using assms by (simp add: upload_csv_buffer_to_s3_def s3_put_def Let_def log_msg_def)
  have u: "fst (upload (E\<lparr>put_raises := f\<rparr>) ds path n dry w0) =
             fst (upload E ds path n dry w0) \<and>
           put_calls (snd (upload (E\<lparr>put_raises := f\<rparr>) ds path n dry w0)) =
             put_calls (snd (upload E ds path n dry w0))" for f
    by (simp add: upload_outcome_put_raises upload_general)
  have d: "fst (upload_dashboard (E\<lparr>put_raises := f\<rparr>) n dry w0) =
             fst (upload_dashboard E n dry w0) \<and>
           put_calls (snd (upload_dashboard (E\<lparr>put_raises := f\<rparr>) n dry w0)) =
             put_calls (snd (upload_dashboard E n dry w0))" for f
    by (simp add: upload_dashboard_general)
  have x: "exit_code (fst (upload_dashboard E n dry w0)) =
           (case fst (get_s3_client E w0) of Inl out \<Rightarrow> exit_code out | Inr c \<Rightarrow> 0)"
    by (simp add: upload_dashboard_general split: sum.split)
  from a b u d x show ?thesis by blast
qed

theorem upload_failure_not_fatal_witness:
  "put_raises env_failing (length (put_calls world0)) = Some (OtherException ''timeout'') \<and>
   upload_file_to_s3 env_failing (''AKIAEXAMPLE'', ''secret'')
       [''/'', ''srv'', ''data'', ''report.txt''] ''p/'' False [''report.txt''] world0 =
     world0\<lparr>put_calls := [UploadFile ''p/report.txt'' [''/'', ''srv'', ''data'', ''report.txt'']],
       log_records :=
         [\<lparr>levelname = ERROR,
           message = ErrorUploading [''/'', ''srv'', ''data'', ''report.txt''],
           exc_info = Some (OtherException ''timeout''), stack_info = True\<rparr>]\<rparr> \<and>
   fst (upload env_failing WINISTRY [''data''] 3 False world0) = Completed"
proof -
  have h: "put_raises env_failing (length (put_calls world0)) =
      Some (OtherException ''timeout'')"
    by (simp add: env_failing_def)
  note t = upload_failure_not_fatal[OF h, of "(''AKIAEXAMPLE'', ''secret'')"
      "[''/'', ''srv'', ''data'', ''report.txt'']" "''p/''" "[''report.txt'']"
      "[]" "[]" "[]" WINISTRY "[''data'']" 3 False world0]
  have e: "env_failing\<lparr>put_raises := (\<lambda>n. None)\<rparr> = env0"
    by (simp add: env_failing_def env0_def)
  have inside: "\<forall>f \<in> set (filter (\<lambda>f. \<not> is_excel_file f) (glob_files env0 [''data''])).
      prefix (resolve env0 [''data'']) (resolve env0 f)"
    by (simp add: env0_directory) (simp add: env0_def)
  have "fst (upload env0 WINISTRY [''data''] 3 False world0) = Completed"
    by (rule upload_directory(1)[OF _ env0_directory(1) _ inside])
      (simp_all add: env0_client)
  moreover from t have "fst (upload (env_failing\<lparr>put_raises := (\<lambda>n. None)\<rparr>) WINISTRY
      [''data''] 3 False world0) = fst (upload env_failing WINISTRY [''data''] 3 False world0)"
    by blast
  ultimately have "fst (upload env_failing WINISTRY [''data''] 3 False world0) = Completed"
    by (simp add: e)
  with t h show ?thesis
    by (simp add: world0_def file_key_examples)
qed

section \<open>The delivery date of a run\<close>

lemma put_key_prefix:
  "prefix s3 (put_key (sheet_put s3 fp td))"
  "prefix s3 (put_key (file_put s3 a))"
  by (simp_all add: sheet_put_def sheet_s3_path_def Let_def file_put_def file_s3_path_def)

lemma workbook_puts_prefix:
  "p \<in> set (workbook_puts E s3 fp) \<Longrightarrow> prefix s3 (put_key p)"
  by (auto simp: workbook_puts_def put_key_prefix)

lemma excel_files_puts_prefix:
  "p \<in> set (excel_files_puts E s3 files) \<Longrightarrow> prefix s3 (put_key p)"
  by (auto simp: excel_files_puts_def workbook_puts_prefix)

lemma upload_puts_cases:
  assumes "p \<in> set (upload_puts E s3 path n)"
  shows "p \<in> set (excel_files_puts E s3 (filter is_excel_file (glob_files E path))) \<or>
         p \<in> set (workbook_puts E s3 (resolve E path)) \<or> (\<exists>a. p = file_put s3 a)"
proof -
  let ?excel = "excel_files_puts E s3 (filter is_excel_file (glob_files E path))"
  let ?regular = "filter (\<lambda>f. \<not> is_excel_file f) (glob_files E path)"
  have "upload_puts E s3 path n = ?excel \<or>
        (\<exists>args. upload_puts E s3 path n = ?excel @ map (file_put s3) args) \<or>
        upload_puts E s3 path n = workbook_puts E s3 (resolve E path) \<or>
        upload_puts E s3 path n = [] \<or>
        (\<exists>a. upload_puts E s3 path n = [file_put s3 a])"
    by (cases "starmap_args E path ?regular";
        cases "relative_to (resolve E path) (resolve E (parent path))")
      (auto simp add: upload_puts_def)
  then show ?thesis
    using assms by (elim disjE exE) auto
qed

lemma upload_puts_prefix:
  assumes "p \<in> set (upload_puts E s3 path n)"
  shows "prefix s3 (put_key p)"
  using upload_puts_cases[OF assms]
  by (auto simp: excel_files_puts_prefix workbook_puts_prefix put_key_prefix)

lemma mapping_puts_prefix:
  "p \<in> set (mapping_puts E k m) \<Longrightarrow>
     prefix (s3_path_of (m_dataset m) (now_value E k)) (put_key p)"
  by (auto simp: mapping_puts_def Let_def put_key_prefix workbook_puts_prefix
      split: if_splits)

lemma put_target_key: "snd (put_target p) = put_key p"
  by (cases p) simp_all

lemma dashboard_puts_two:
  "dashboard_puts E k [m1, m2] =
     (if path_exists E (m_file_path m1) then mapping_puts E k m1 else []) @
     (if path_exists E (m_file_path m2)
      then mapping_puts E (k + (if path_exists E (m_file_path m1) then 1 else 0)) m2
      else [])"
  by simp

text \<open>
  When the credentials load, \<open>upload\<close> reads the clock exactly once, and every key it
  puts under (or announces in a dry run) starts with the prefix built from that one
  reading. \<open>upload_dashboard\<close> reads the clock once for each predefined mapping whose
  file exists: the keys of one mapping all start with the prefix of the reading made for
  that mapping, the second mapping's reading being the one after the first's.
\<close>

lemma clock_reads_per_command:
  assumes creds: "fst (get_s3_client E w) = Inr c"
  shows "clock_reads (snd (upload E ds path n dry w)) = Suc (clock_reads w) \<and>
         (\<forall>p \<in> set (drop (length (put_calls w)) (put_calls (snd (upload E ds path n dry w)))).
            prefix (s3_path_of (dataset_value ds) (now_value E (clock_reads w))) (put_key p)) \<and>
         (\<forall>t \<in> set (drop (length (would_targets (log_records w)))
                       (would_targets (log_records (snd (upload E ds path n dry w))))).
            prefix (s3_path_of (dataset_value ds) (now_value E (clock_reads w))) (snd t)) \<and>
         clock_reads (snd (upload_dashboard E n dry w)) =
           clock_reads w + length (filter (\<lambda>m. path_exists E (m_file_path m)) file_mappings) \<and>
         drop (length (put_calls w)) (put_calls (snd (upload_dashboard E n False w))) =
           dashboard_puts E (clock_reads w) file_mappings \<and>
         drop (length (would_targets (log_records w)))
             (would_targets (log_records (snd (upload_dashboard E n True w)))) =
           map put_target (dashboard_puts E (clock_reads w) file_mappings) \<and>
         dashboard_puts E (clock_reads w) file_mappings =
           (if path_exists E (m_file_path (file_mappings ! 0))
            then mapping_puts E (clock_reads w) (file_mappings ! 0) else []) @
           (if path_exists E (m_file_path (file_mappings ! 1))
            then mapping_puts E
                   (clock_reads w +
                      (if path_exists E (m_file_path (file_mappings ! 0)) then 1 else 0))
                   (file_mappings ! 1)
            else []) \<and>
         (\<forall>k m. \<forall>p \<in> set (mapping_puts E k m).
            prefix (s3_path_of (m_dataset m) (now_value E k)) (put_key p))"
proof -
  let ?s3 = "s3_path_of (dataset_value ds) (now_value E (clock_reads w))"
  have ok: "(case fst (get_s3_client E w) of Inl out \<Rightarrow> False | Inr c \<Rightarrow> True)"
    by (simp add: creds)
  have 1: "clock_reads (snd (upload E ds path n dry w)) = Suc (clock_reads w)"
    by (simp add: upload_general ok)
  have 2: "\<forall>p \<in> set (drop (length (put_calls w)) (put_calls (snd (upload E ds path n dry w)))).
            prefix ?s3 (put_key p)"
    by (auto simp: upload_general ok upload_puts_prefix)
  have 3: "\<forall>t \<in> set (drop (length (would_targets (log_records w)))
                       (would_targets (log_records (snd (upload E ds path n dry w))))).
            prefix ?s3 (snd t)"
    by (auto simp: upload_general ok) (metis put_target_key snd_conv upload_puts_prefix)
  have 4: "clock_reads (snd (upload_dashboard E n dry w)) =
           clock_reads w + length (filter (\<lambda>m. path_exists E (m_file_path m)) file_mappings)"
    by (simp add: upload_dashboard_general ok)
  have 5: "drop (length (put_calls w)) (put_calls (snd (upload_dashboard E n False w))) =
           dashboard_puts E (clock_reads w) file_mappings"
    by (simp add: upload_dashboard_general ok)
  have 6: "drop (length (would_targets (log_records w)))
             (would_targets (log_records (snd (upload_dashboard E n True w)))) =
           map put_target (dashboard_puts E (clock_reads w) file_mappings)"
    by (simp add: upload_dashboard_general ok)
  have fm: "file_mappings = [file_mappings ! 0, file_mappings ! 1]"
    by (simp add: file_mappings_def)
  have 7: "dashboard_puts E (clock_reads w) file_mappings =
           (if path_exists E (m_file_path (file_mappings ! 0))
            then mapping_puts E (clock_reads w) (file_mappings ! 0) else []) @
           (if path_exists E (m_file_path (file_mappings ! 1))
            then mapping_puts E
                   (clock_reads w +
                      (if path_exists E (m_file_path (file_mappings ! 0)) then 1 else 0))
                   (file_mappings ! 1)
            else [])"
    by (subst fm) (rule dashboard_puts_two)
  have 8: "\<forall>k m. \<forall>p \<in> set (mapping_puts E k m).
            prefix (s3_path_of (m_dataset m) (now_value E k)) (put_key p)"
    by (auto simp: mapping_puts_prefix)
  from 1 2 3 4 5 6 7 8 show ?thesis by blast
qed

lemma env0_workbook_puts_any:
  "workbook_puts env0 s3 fp =
     [UploadFileobj (sheet_s3_path s3 (name fp) ''Jan'')
        (''city,visits'' @ [CHR 0x0A] @ ''Atlanta,12'' @ [CHR 0x0A])]"
  by (simp add: workbook_puts_def workbook_sheets_def env0_def q_loaded sheet_put_def q_csv)

lemma dashboard_files_excel:
  "is_excel_file (dashboard_dir @ [''Discover Atlanta KPI Dashboard.xlsx''])"
  "is_excel_file (dashboard_dir @ [''Discover Atlanta - Monthly Data Report.xlsx''])"
  by (simp_all add: is_excel_file_def suffix_of_def name_def rfind_def lower_def
      lower_char_def char_of_nat_eq)

lemma dashboard_keys:
  "sheet_s3_path s3 (name (dashboard_dir @ [''Discover Atlanta KPI Dashboard.xlsx''])) ''Jan'' =
     s3 @ ''Discover Atlanta KPI Dashboard_Jan.csv''"
  "sheet_s3_path s3
     (name (dashboard_dir @ [''Discover Atlanta - Monthly Data Report.xlsx''])) ''Jan'' =
     s3 @ ''Discover Atlanta - Monthly Data Report_Jan.csv''"
  by (simp_all add: sheet_s3_path_def stem_def name_def rfind_def safe_sheet_name_map Let_def
      backslash_def)

lemma env0_dashboard_puts:
  "map put_key (dashboard_puts env0 0 file_mappings) =
     [''delivery/dataset=winistry/status=staged/delivery-date=2024-12-31/'' @
        ''Discover Atlanta KPI Dashboard_Jan.csv'',
      ''delivery/dataset=sparkloft/status=staged/delivery-date=2025-01-01/'' @
        ''Discover Atlanta - Monthly Data Report_Jan.csv'']"
proof -
  have now: "now_value env0 0 = \<lparr>year = 2024, month = 12, day = 31\<rparr>"
    "now_value env0 (Suc 0) = \<lparr>year = 2025, month = 1, day = 1\<rparr>"
    by (simp_all add: env0_def)
  have ex: "path_exists env0 p" for p by (simp add: env0_def)
  show ?thesis
    by (simp add: file_mappings_def ex mapping_puts_def Let_def dashboard_files_excel
        env0_workbook_puts_any dashboard_keys now s3_path_examples s3_path_examples[simplified])
qed

text \<open>
  The date segment determines the date: two readings on different days give different
  prefixes.
\<close>

lemma digit_char_inj:
  assumes "a < 10" and "b < 10"
  shows "digit_char a = digit_char b \<longleftrightarrow> a = b"
  using assms by (simp add: digit_char_def)

lemma div_mod_10_eq:
  fixes a b :: nat
  assumes "a div 10 = b div 10" and "a mod 10 = b mod 10"
  shows "a = b"
proof -
  have "a = 10 * (a div 10) + a mod 10" by simp
  also have "\<dots> = 10 * (b div 10) + b mod 10" by (simp only: assms)
  also have "\<dots> = b" by simp
  finally show ?thesis .
qed

lemma four_digits_eq:
  fixes n m :: nat
  assumes "n div 1000 = m div 1000" "n div 100 mod 10 = m div 100 mod 10"
    "n div 10 mod 10 = m div 10 mod 10" "n mod 10 = m mod 10"
  shows "n = m"
proof -
  have c1: "k div 100 div 10 = k div 1000" for k :: nat
    by (simp add: div_mult2_eq[symmetric])
  have c2: "k div 10 div 10 = k div 100" for k :: nat
    by (simp add: div_mult2_eq[symmetric])
  have "n div 100 div 10 = m div 100 div 10"
    by (simp only: c1 assms(1))
  then have "n div 100 = m div 100"
    using assms(2) by (rule div_mod_10_eq)
  then have "n div 10 div 10 = m div 10 div 10"
    by (simp only: c2)
  then have "n div 10 = m div 10"
    using assms(3) by (rule div_mod_10_eq)
  then show ?thesis
    using assms(4) by (rule div_mod_10_eq)
qed

lemma digits2_inj:
  assumes "n < 100" and "m < 100" and "digits2 n = digits2 m"
  shows "n = m"
proof -
  have "n div 10 < 10" "m div 10 < 10" using assms(1,2) by simp_all
  then have a: "digit_char (n div 10) = digit_char (m div 10) \<longleftrightarrow> n div 10 = m div 10"
    by (rule digit_char_inj)
  have b: "digit_char (n mod 10) = digit_char (m mod 10) \<longleftrightarrow> n mod 10 = m mod 10"
    by (rule digit_char_inj) simp_all
  from assms(3) have "digit_char (n div 10) = digit_char (m div 10)"
    "digit_char (n mod 10) = digit_char (m mod 10)"
    by (simp_all add: digits2_def)
  then have "n div 10 = m div 10" "n mod 10 = m mod 10"
    by (simp_all only: a b)
  then show ?thesis by (rule div_mod_10_eq)
qed

lemma digits4_inj:
  assumes "n < 10000" and "m < 10000" and "digits4 n = digits4 m"
  shows "n = m"
proof -
  have "n div 1000 < 10" "m div 1000 < 10" using assms(1,2) by simp_all
  then have a: "digit_char (n div 1000) = digit_char (m div 1000) \<longleftrightarrow>
      n div 1000 = m div 1000"
    by (rule digit_char_inj)
  have b: "digit_char (n div 100 mod 10) = digit_char (m div 100 mod 10) \<longleftrightarrow>
      n div 100 mod 10 = m div 100 mod 10"
    by (rule digit_char_inj) simp_all
  have c: "digit_char (n div 10 mod 10) = digit_char (m div 10 mod 10) \<longleftrightarrow>
      n div 10 mod 10 = m div 10 mod 10"
    by (rule digit_char_inj) simp_all
  have d: "digit_char (n mod 10) = digit_char (m mod 10) \<longleftrightarrow> n mod 10 = m mod 10"
    by (rule digit_char_inj) simp_all
  from assms(3) have "digit_char (n div 1000) = digit_char (m div 1000)"
    "digit_char (n div 100 mod 10) = digit_char (m div 100 mod 10)"
    "digit_char (n div 10 mod 10) = digit_char (m div 10 mod 10)"
    "digit_char (n mod 10) = digit_char (m mod 10)"
    by (simp_all add: digits4_def)
  then have "n div 1000 = m div 1000" "n div 100 mod 10 = m div 100 mod 10"
    "n div 10 mod 10 = m div 10 mod 10" "n mod 10 = m mod 10"
    by (simp_all only: a b c d)
  then show ?thesis by (rule four_digits_eq)
qed

lemma strftime_ymd_inj:
  assumes "date_ok d1" and "date_ok d2" and "strftime_ymd d1 = strftime_ymd d2"
  shows "d1 = d2"
proof -
  note b1 = date_ok_bounds[OF assms(1)] and b2 = date_ok_bounds[OF assms(2)]
  have eq: "yyyy_mm_dd d1 = yyyy_mm_dd d2"
    using assms by (simp add: strftime_ymd_digits)
  have l: "length (digits4 n) = 4" "length (digits2 n) = 2" for n
    by (simp_all add: digits4_def digits2_def)
  from eq have e: "digits4 (year d1) = digits4 (year d2)"
    "digits2 (month d1) = digits2 (month d2)" "digits2 (day d1) = digits2 (day d2)"
    by (simp_all add: yyyy_mm_dd_def l)
  have "year d1 = year d2"
    using b1(1) b2(1) e(1) by (rule digits4_inj)
  moreover have "month d1 = month d2"
    by (rule digits2_inj[OF _ _ e(2)]) (use b1(2) b2(2) in simp_all)
  moreover have "day d1 = day d2"
    by (rule digits2_inj[OF _ _ e(3)]) (use b1(3) b2(3) in simp_all)
  ultimately show ?thesis by (intro date.equality) simp_all
qed

lemma s3_path_of_inj_date:
  assumes "date_ok d1" and "date_ok d2" and "s3_path_of ds d1 = s3_path_of ds d2"
  shows "d1 = d2"
  using assms by (auto simp: s3_path_of_def intro: strftime_ymd_inj)

text \<open>
  C5 holds of \<open>upload\<close> and fails on the code for \<open>upload_dashboard\<close>, where the clock is
  read inside the loop, once per mapping. In the example the date changes between the two
  readings: the run of \<open>upload\<close> reads the clock once and puts every object under
  2024-12-31, while the single run of \<open>upload_dashboard\<close> reads it twice and puts the
  first workbook under 2024-12-31 and the second under 2025-01-01.
\<close>

theorem dashboard_run_spans_two_dates:
  "clock_reads (snd (upload env0 WINISTRY [''data''] 3 False world0)) = 1 \<and>
   map put_key (put_calls (snd (upload env0 WINISTRY [''data''] 3 False world0))) =
     [''delivery/dataset=winistry/status=staged/delivery-date=2024-12-31/q_Jan.csv'',
      ''delivery/dataset=winistry/status=staged/delivery-date=2024-12-31/report.txt'',
      ''delivery/dataset=winistry/status=staged/delivery-date=2024-12-31/env''] \<and>
   clock_reads (snd (upload_dashboard env0 3 False world0)) = 2 \<and>
   map put_key (put_calls (snd (upload_dashboard env0 3 False world0))) =
     [''delivery/dataset=winistry/status=staged/delivery-date=2024-12-31/'' @
        ''Discover Atlanta KPI Dashboard_Jan.csv'',
      ''delivery/dataset=sparkloft/status=staged/delivery-date=2025-01-01/'' @
        ''Discover Atlanta - Monthly Data Report_Jan.csv'']"
proof -
  have creds: "fst (get_s3_client env0 world0) = Inr (''AKIAEXAMPLE'', ''secret'')"
    by (simp add: env0_client)
  have ok: "(case fst (get_s3_client env0 world0) of Inl out \<Rightarrow> False | Inr c \<Rightarrow> True)"
    by (simp add: env0_client)
  have w0: "put_calls world0 = []" "clock_reads world0 = 0"
    by (simp_all add: world0_def)
  have inside: "\<forall>f \<in> set (filter (\<lambda>f. \<not> is_excel_file f) (glob_files env0 [''data''])).
      prefix (resolve env0 [''data'']) (resolve env0 f)"
    by (simp add: env0_directory) (simp add: env0_def)
  have now0: "now_value env0 0 = \<lparr>year = 2024, month = 12, day = 31\<rparr>"
    by (simp add: env0_def)
  have up: "put_calls (snd (upload env0 WINISTRY [''data''] 3 False world0)) =
      directory_puts env0 ''delivery/dataset=winistry/status=staged/delivery-date=2024-12-31/''
        [''data'']"
    using upload_directory(2)[OF creds env0_directory(1) _ inside, of 3 WINISTRY False]
    by (simp add: w0 now0 s3_path_examples)
  have up_clock: "clock_reads (snd (upload env0 WINISTRY [''data''] 3 False world0)) = 1"
    using upload_directory(5)[OF creds env0_directory(1) _ inside, of 3 WINISTRY False]
    by (simp add: w0)
  have ex: "filter (\<lambda>m. path_exists env0 (m_file_path m)) file_mappings = file_mappings"
    by (simp add: env0_def)
  have dash_clock: "clock_reads (snd (upload_dashboard env0 3 False world0)) = 2"
    by (simp add: upload_dashboard_general ok w0 ex) (simp add: file_mappings_def)
  have dash: "put_calls (snd (upload_dashboard env0 3 False world0)) =
      dashboard_puts env0 0 file_mappings"
    by (simp add: upload_dashboard_general ok w0)
  from up up_clock dash_clock dash show ?thesis
    by (simp add: env0_dashboard_puts env0_directory_puts)
qed


section \<open>Keys of plain files\<close>

lemma join_Cons: "\<exists>rest. join sep (x # xs) = x @ rest"
  by (cases xs) simp_all

text \<open>
  A relative path whose first component starts with neither a dot nor a slash is kept as
  it is: the key is the prefix followed by the relative path.
\<close>

lemma file_s3_path_plain:
  assumes "rel \<noteq> []" and "hd rel \<noteq> []"
    and "hd (hd rel) \<noteq> CHR ''.''" and "hd (hd rel) \<noteq> CHR ''/''"
  shows "file_s3_path s3 rel = s3 @ join ''/'' rel"
proof -
  obtain x xs where rel: "rel = x # xs" using assms(1) by (cases rel) auto
  obtain ch cs where x: "x = ch # cs" using assms(2) rel by (cases x) auto
  obtain rest where j: "join ''/'' rel = ch # cs @ rest"
    using join_Cons[of "''/''" x xs] rel x by auto
  from assms(3,4) rel x have ch: "ch \<noteq> CHR ''.''" "ch \<noteq> CHR ''/''" by simp_all
  have "as_posix rel = ch # cs @ rest"
    using assms(1) by (simp add: as_posix_def j)
  moreover have "lstrip ''/'' (lstrip ''.'' (ch # cs @ rest)) = ch # cs @ rest"
    using ch by (simp add: lstrip_def)
  ultimately show ?thesis
    by (simp add: file_s3_path_def j)
qed

text \<open>
  C4 fails on the code for names that begin with a dot: \<open>lstrip('.')\<close> strips the leading
  dots of the relative path, so the file \<open>.env\<close> of the example directory, whose
  relative path is \<open>.env\<close>, is put under \<open><prefix>env\<close>.
\<close>

theorem dotfile_key_loses_dot:
  "relative_to (resolve env0 [''data'', ''.env'']) (resolve env0 [''data'']) = Inr [''.env''] \<and>
   file_s3_path s3 [''.env''] = s3 @ ''env'' \<and>
   file_s3_path s3 [''.env''] \<noteq> s3 @ ''.env'' \<and>
   put_calls (snd (upload env0 WINISTRY [''data''] 3 False world0)) ! 2 =
     UploadFile ''delivery/dataset=winistry/status=staged/delivery-date=2024-12-31/env''
       [''/'', ''srv'', ''data'', ''.env'']"
proof -
  have creds: "fst (get_s3_client env0 world0) = Inr (''AKIAEXAMPLE'', ''secret'')"
    by (simp add: env0_client)
  have inside: "\<forall>f \<in> set (filter (\<lambda>f. \<not> is_excel_file f) (glob_files env0 [''data''])).
      prefix (resolve env0 [''data'']) (resolve env0 f)"
    by (simp add: env0_directory) (simp add: env0_def)
  have w0: "put_calls world0 = []" "clock_reads world0 = 0"
    by (simp_all add: world0_def)
  have now0: "now_value env0 0 = \<lparr>year = 2024, month = 12, day = 31\<rparr>"
    by (simp add: env0_def)
  have "put_calls (snd (upload env0 WINISTRY [''data''] 3 False world0)) =
      directory_puts env0 ''delivery/dataset=winistry/status=staged/delivery-date=2024-12-31/''
        [''data'']"
    using upload_directory(2)[OF creds env0_directory(1) _ inside, of 3 WINISTRY False]
    by (simp add: w0 now0 s3_path_examples)
  moreover have "relative_to (resolve env0 [''data'', ''.env'']) (resolve env0 [''data'']) =
      Inr [''.env'']"
    by (simp add: relative_to_def env0_def)
  ultimately show ?thesis
    by (simp add: env0_directory_puts file_key_examples)
qed


section \<open>Keys and content of sheets\<close>

lemma to_csv_no_index:
  "to_csv df True False = csv_line (columns df) @ concat (map csv_line (data_rows df))"
proof -
  have "map (\<lambda>(i, r). csv_line r) (zip [0 ..< length xs] xs) = map csv_line xs"
    for xs :: "string list list"
    by (rule nth_equalityI) simp_all
  then show ?thesis by (simp add: to_csv_def)
qed

text \<open>
  A one-column sheet with a blank cell: the blank row is written as a pair of quotes, not
  as an empty line.
\<close>

lemma to_csv_blank_cell:
  "to_csv \<lparr>columns = [''a''], data_rows = [[''x''], [[]], [''z'']]\<rparr> True False =
     ''a'' @ [CHR 0x0A] @ ''x'' @ [CHR 0x0A] @ [CHR 0x22, CHR 0x22, CHR 0x0A] @ ''z'' @ [CHR 0x0A]"
  by (simp add: to_csv_no_index csv_line_def csv_field_def)

lemma set_loaded_frames:
  "set (loaded_frames sheets) =
     {(sheet_title sh, df) | sh df.
        sh \<in> set sheets \<and> sheet_frame sh = Inr df \<and> data_rows df \<noteq> [] \<and> columns df \<noteq> []}"
  by (induction sheets) (auto simp: df_empty_def split: sum.splits)

text \<open>
  C6: for a workbook that opens, the puts of \<open>process_excel_file\<close> are, in workbook
  order, one per sheet that loads with at least one data row (and so one column): under
  the key \<open><prefix><stem of the file name>_<sanitized sheet name>.csv\<close>, where the sanitized
  name is the sheet name with exactly the slash, backslash and space characters replaced
  by underscores, and with the content made of the header line followed by one line per
  data row, each line holding the cells of the columns only. A dry run announces the same
  keys.
\<close>

theorem sheet_key_and_content:
  assumes "pd_excel_file E fp = Inr sheets"
  shows "put_calls (process_excel_file E c fp s3 False w) =
           put_calls w @
           map (\<lambda>td. UploadFileobj
                  (s3 @ stem [name fp] @ ''_'' @
                   map (\<lambda>ch. if ch = CHR ''/'' \<or> ch = backslash \<or> ch = CHR '' ''
                              then CHR ''_'' else ch) (fst td) @
                   ''.csv'')
                  (csv_line (columns (snd td)) @ concat (map csv_line (data_rows (snd td)))))
             (loaded_frames sheets) \<and>
         would_targets (log_records (process_excel_file E c fp s3 True w)) =
           would_targets (log_records w) @
           map (\<lambda>td. (SheetBuffer,
                  s3 @ stem [name fp] @ ''_'' @
                  map (\<lambda>ch. if ch = CHR ''/'' \<or> ch = backslash \<or> ch = CHR '' ''
                             then CHR ''_'' else ch) (fst td) @
                  ''.csv''))
             (loaded_frames sheets) \<and>
         set (loaded_frames sheets) =
           {(sheet_title sh, df) | sh df.
              sh \<in> set sheets \<and> sheet_frame sh = Inr df \<and>
              data_rows df \<noteq> [] \<and> columns df \<noteq> []}"
proof -
  have sheets: "workbook_sheets E fp = sheets"
    by (simp add: workbook_sheets_def assms)
  have put: "sheet_put s3 fp td =
      UploadFileobj
        (s3 @ stem [name fp] @ ''_'' @
         map (\<lambda>ch. if ch = CHR ''/'' \<or> ch = backslash \<or> ch = CHR '' ''
                    then CHR ''_'' else ch) (fst td) @
         ''.csv'')
        (csv_line (columns (snd td)) @ concat (map csv_line (data_rows (snd td))))" for td
    by (simp add: sheet_put_def sheet_s3_path_def Let_def safe_sheet_name_map to_csv_no_index)
  have "put_calls (process_excel_file E c fp s3 False w) =
      put_calls w @ map (sheet_put s3 fp) (loaded_frames sheets)"
    by (simp add: process_excel_file_fields workbook_puts_def sheets)
  moreover have "would_targets (log_records (process_excel_file E c fp s3 True w)) =
      would_targets (log_records w) @
      map (\<lambda>td. put_target (sheet_put s3 fp td)) (loaded_frames sheets)"
    by (simp add: process_excel_file_fields workbook_puts_def sheets o_def)
  ultimately show ?thesis
    by (simp add: put set_loaded_frames)
qed

theorem sheet_key_and_content_witness:
  "pd_excel_file env0 [''/'', ''srv'', ''data'', ''q.xlsx''] = Inr q_sheets \<and>
   put_calls (process_excel_file env0 (''AKIAEXAMPLE'', ''secret'')
       [''/'', ''srv'', ''data'', ''q.xlsx''] ''p/'' False world0) =
     [UploadFileobj ''p/q_Jan.csv'' (''city,visits'' @ [CHR 0x0A] @ ''Atlanta,12'' @ [CHR 0x0A])]"
proof -
  have h: "pd_excel_file env0 [''/'', ''srv'', ''data'', ''q.xlsx''] = Inr q_sheets"
    by (simp add: env0_def)
  have st: "stem [name [''/'', ''srv'', ''data'', ''q.xlsx'']] = ''q''"
    by (simp add: stem_def name_def rfind_def)
  from sheet_key_and_content[OF h, of "(''AKIAEXAMPLE'', ''secret'')" "''p/''" world0] h
  show ?thesis
    by (simp add: q_loaded st world0_def csv_line_def csv_field_def backslash_def)
qed


section \<open>Missing credentials\<close>

text \<open>
  C8: when the configuration file is missing, or has no \<open>AWS\<close> section, or lacks one of
  the two fields, or holds an empty value for one, \<open>get_s3_client\<close> logs one ERROR record
  that names the failure and exits with status 1 without constructing a client; so do
  both commands, which then make no put.
\<close>

theorem missing_credentials_fatal:
  assumes "credentials_missing (config_file E)"
  shows "fst (get_s3_client E w) = Inl (SysExit 1) \<and>
         clients (snd (get_s3_client E w)) = clients w \<and>
         put_calls (snd (get_s3_client E w)) = put_calls w \<and>
         (\<exists>m e. m \<in> {ConfigNotFound, ConfigReadError e, CredentialsIncomplete} \<and>
            log_records (snd (get_s3_client E w)) =
              log_records w @
              [\<lparr>levelname = ERROR, message = m, exc_info = None, stack_info = False\<rparr>]) \<and>
         upload E ds path n dry w = (SysExit 1, snd (get_s3_client E w)) \<and>
         upload_dashboard E n dry w = (SysExit 1, snd (get_s3_client E w)) \<and>
         exit_code (fst (upload E ds path n dry w)) = 1 \<and>
         exit_code (fst (upload_dashboard E n dry w)) = 1"
proof -
  have g: "fst (get_s3_client E w) = Inl (SysExit 1)"
    using assms
    by (auto simp: credentials_missing_def get_s3_client_def config_get_def lower_keys Let_def
        split: config_file.splits option.splits)
  have c: "clients (snd (get_s3_client E w)) = clients w"
    using assms
    by (auto simp: credentials_missing_def get_s3_client_def config_get_def lower_keys Let_def
        split: config_file.splits option.splits)
  have l: "\<exists>m e. m \<in> {ConfigNotFound, ConfigReadError e, CredentialsIncomplete} \<and>
            log_records (snd (get_s3_client E w)) =
              log_records w @
              [\<lparr>levelname = ERROR, message = m, exc_info = None, stack_info = False\<rparr>]"
    using assms
    by (auto simp: credentials_missing_def get_s3_client_def config_get_def lower_keys Let_def
        split: config_file.splits option.splits)
  obtain w1 where p: "get_s3_client E w = (Inl (SysExit 1), w1)"
    using g by (cases "get_s3_client E w") simp
  have u: "upload E ds path n dry w = (SysExit 1, snd (get_s3_client E w))"
    "upload_dashboard E n dry w = (SysExit 1, snd (get_s3_client E w))"
    by (simp_all add: upload_def upload_dashboard_def p)
  from g c l u get_s3_client_frame(1)[of E w] show ?thesis by simp
qed

theorem missing_credentials_fatal_witness:
  "credentials_missing (config_file (env0\<lparr>config_file := Absent\<rparr>)) \<and>
   upload (env0\<lparr>config_file := Absent\<rparr>) WINISTRY [''data''] 3 False world0 =
     (SysExit 1,
      world0\<lparr>log_records :=
        [\<lparr>levelname = ERROR, message = ConfigNotFound, exc_info = None,
          stack_info = False\<rparr>]\<rparr>) \<and>
   credentials_missing
     (Parsed [(''AWS'', [(''aws_access_key_id'', ''AKIAEXAMPLE''),
                         (''aws_secret_access_key'', [])])])"
proof -
  have h: "credentials_missing (config_file (env0\<lparr>config_file := Absent\<rparr>))"
    by (simp add: credentials_missing_def)
  have s: "snd (get_s3_client (env0\<lparr>config_file := Absent\<rparr>) world0) =
      world0\<lparr>log_records :=
        [\<lparr>levelname = ERROR, message = ConfigNotFound, exc_info = None,
          stack_info = False\<rparr>]\<rparr>"
    by (simp add: get_s3_client_def log_msg_def world0_def)
  have e: "credentials_missing
     (Parsed [(''AWS'', [(''aws_access_key_id'', ''AKIAEXAMPLE''),
                         (''aws_secret_access_key'', [])])])"
    by (simp add: credentials_missing_def)
  from missing_credentials_fatal[OF h, of world0 WINISTRY "[''data'']" 3 False] h e
  show ?thesis by (simp add: s)
qed

end
